theory Spec2Isabelle
  imports Main "HOL-Library.Sublist"
begin

section \<open>Domain model and memory\<close>

text \<open>
  The entities of \<^verbatim>\<open>reAct_beyond_llms.py\<close>. Python's unbounded \<^verbatim>\<open>int\<close> is \<^typ>\<open>int\<close>;
  a \<^verbatim>\<open>datetime.date\<close> is its day ordinal (an \<^typ>\<open>int\<close>), so that adding a
  \<^verbatim>\<open>timedelta(days=n)\<close> is adding \<open>n\<close> and comparing dates is comparing ordinals
  (the year range 1..9999 of \<^verbatim>\<open>datetime.date\<close> is not modelled).
  \<^verbatim>\<open>Optional[T]\<close> is \<open>T option\<close>. Both \<^verbatim>\<open>Invoice\<close> and \<^verbatim>\<open>PaymentPlan\<close> have a field
  \<^verbatim>\<open>currency\<close>; it is always written with its record's name in front.
\<close>

type_synonym date = int

record Invoice =
  invoice_id :: string
  vendor_id :: string
  amount :: int
  currency :: string
  due_date :: date
  memo :: string

record Account =
  account_id :: string
  balance_cents :: int
  daily_limit_cents :: int
  spent_today_cents :: int

record PaymentPlan =
  total_cents :: int
  currency :: string
  immediate_cents :: int
  scheduled_cents :: int
  scheduled_date :: "date option"

record Memory =
  invoice :: Invoice
  account :: Account
  vendor_kyc_ok :: "bool option"
  vendor_aml_ok :: "bool option"
  payment_plan :: "PaymentPlan option"
  executed_amount_cents :: int
  scheduled :: bool
  errors :: "string list"
  audit_log :: "string list"

text \<open>
  What the program reads from outside itself. Every read happens inside one iteration of
  the loop of \<^verbatim>\<open>run_episode\<close>, so each is indexed by the iteration number \<^verbatim>\<open>step\<close>:
  \<^item> \<open>today env step\<close> is \<^verbatim>\<open>datetime.date.today()\<close> (read at most once per iteration);
  \<^item> \<open>now env step k\<close> is \<^verbatim>\<open>datetime.datetime.now().isoformat(timespec="seconds")\<close> at the
    \<open>k\<close>-th call of \<^verbatim>\<open>Memory.log\<close> in the iteration;
  \<^item> \<open>uuid4 env step\<close> is \<^verbatim>\<open>str(uuid.uuid4())\<close> (generated at most once per iteration);
  \<^item> \<open>fmt_cents env c\<close> is the text of \<^verbatim>\<open>f"{c/100:.2f}"\<close> when \<^verbatim>\<open>c/100\<close> is a float, and
    \<open>fmt_date env d\<close> the text of \<^verbatim>\<open>f"{d}"\<close> for a date or \<^verbatim>\<open>None\<close>. Both are
    floating-point and calendar renderings that only fill message texts; the texts are
    kept abstract. Whether \<^verbatim>\<open>c/100\<close> is a float at all is not: see \<open>render_cents\<close> below.
  \<^verbatim>\<open>print\<close> in \<^verbatim>\<open>Memory.log\<close> writes to the console and is not part of the state.
\<close>

record Env =
  today :: "nat \<Rightarrow> date"
  now :: "nat \<Rightarrow> nat \<Rightarrow> string"
  uuid4 :: "nat \<Rightarrow> string"
  fmt_cents :: "int \<Rightarrow> string"
  fmt_date :: "date option \<Rightarrow> string"

text \<open>\<^verbatim>\<open>str(n)\<close> for a natural number: its decimal digits.\<close>

definition digit :: "nat \<Rightarrow> char" where
  "digit d = ''0123456789'' ! d"

fun show_nat :: "nat \<Rightarrow> string" where
  "show_nat n = (if n < 10 then [digit n] else show_nat (n div 10) @ [digit (n mod 10)])"

text \<open>\<^verbatim>\<open>Memory.log\<close>: append \<^verbatim>\<open>f"{timestamp} | {msg}"\<close> to the audit log.\<close>

definition log :: "string \<Rightarrow> string \<Rightarrow> Memory \<Rightarrow> Memory" where
  "log timestamp msg mem = mem\<lparr>audit_log := audit_log mem @ [timestamp @ '' | '' @ msg]\<rparr>"

text \<open>
  The exceptions the program can raise: reading a field of \<^verbatim>\<open>mem.payment_plan\<close> raises
  \<^verbatim>\<open>AttributeError\<close> when the plan is \<^verbatim>\<open>None\<close>, and the true division \<^verbatim>\<open>c/100\<close> of an
  \<^verbatim>\<open>int\<close> raises \<^verbatim>\<open>OverflowError\<close> when the quotient, rounded to the nearest float, is
  not a finite float. The largest finite float is \<open>2 ^ 1024 - 2 ^ 971\<close> and the quotient
  rounds beyond it from \<open>2 ^ 1024 - 2 ^ 970\<close> on (a tie goes to the even neighbour), so
  \<^verbatim>\<open>c/100\<close> raises exactly when \<open>\<bar>c\<bar>\<close> is at least \<open>100 * (2 ^ 1024 - 2 ^ 970)\<close>, a number of
  311 digits. \<open>render_cents env c\<close> is \<^verbatim>\<open>f"{c/100:.2f}"\<close> with that exception.
\<close>

datatype exn = AttributeError | OverflowError

definition float_limit_cents :: int where
  "float_limit_cents = 100 * (2 ^ 1024 - 2 ^ 970)"

definition float_overflow :: "int \<Rightarrow> bool" where
  "float_overflow c = (float_limit_cents \<le> \<bar>c\<bar>)"

definition render_cents :: "Env \<Rightarrow> int \<Rightarrow> exn + string" where
  "render_cents env c = (if float_overflow c then Inl OverflowError else Inr (fmt_cents env c))"

section \<open>Tools (actions)\<close>

text \<open>
  A tool that reads the clock or generates an identifier takes the value read as its first
  argument. \<^verbatim>\<open>x in s\<close> on strings is \<^const>\<open>sublist\<close>, \<^verbatim>\<open>s.endswith(t)\<close> is
  \<^const>\<open>suffix\<close>.
\<close>

definition tool_validate_invoice :: "date \<Rightarrow> Memory \<Rightarrow> bool \<times> string" where
  "tool_validate_invoice date_today mem =
     (let iv = invoice mem in
      if amount iv \<le> 0 then (False, ''Invalid invoice amount.'')
      else if Invoice.currency iv \<notin> {''USD'', ''EUR'', ''GBP''}
        then (False, ''Unsupported currency '' @ Invoice.currency iv @ ''.'')
      else if due_date iv < date_today - 30 then (False, ''Invoice is too old.'')
      else (True, ''Invoice validated.''))"

definition tool_run_kyc :: "string \<Rightarrow> bool \<times> string" where
  "tool_run_kyc vendor =
     (let ok = \<not> suffix ''X'' vendor
      in (ok, if ok then ''KYC passed.'' else ''KYC failed.''))"

definition tool_run_aml_screening :: "string \<Rightarrow> bool \<times> string" where
  "tool_run_aml_screening vendor =
     (let denylist = {''OFAC123'', ''AML999''};
          ok = vendor \<notin> denylist
      in (ok, if ok then ''AML screening passed.'' else ''AML screening flagged vendor.''))"

definition tool_check_balance :: "Account \<Rightarrow> int \<Rightarrow> bool \<times> string" where
  "tool_check_balance acct amount_cents =
     (let ok = balance_cents acct \<ge> amount_cents
      in (ok, if ok then ''Sufficient balance.'' else ''Insufficient balance.''))"

definition tool_check_daily_limit :: "Account \<Rightarrow> int \<Rightarrow> bool \<times> string" where
  "tool_check_daily_limit acct amount_cents =
     (let ok = spent_today_cents acct + amount_cents \<le> daily_limit_cents acct
      in (ok, if ok then ''Within daily limit.'' else ''Exceeds daily limit.''))"

definition tool_propose_plan :: "date \<Rightarrow> Memory \<Rightarrow> bool \<times> string \<times> PaymentPlan" where
  "tool_propose_plan date_today mem =
     (let iv = invoice mem;
          acct = account mem;
          immediate = min (amount iv) (balance_cents acct);
          remaining_limit = max 0 (daily_limit_cents acct - spent_today_cents acct);
          immediate = min immediate remaining_limit
      in if immediate \<le> 0 then
           (True, ''Proposed full scheduling for tomorrow.'',
            \<lparr>total_cents = amount iv, currency = Invoice.currency iv, immediate_cents = 0,
             scheduled_cents = amount iv, scheduled_date = Some (date_today + 1)\<rparr>)
         else
           let remainder = amount iv - immediate
           in if remainder > 0 then
                (True, ''Proposed split: partial now, remainder tomorrow.'',
                 \<lparr>total_cents = amount iv, currency = Invoice.currency iv,
                  immediate_cents = immediate, scheduled_cents = remainder,
                  scheduled_date = Some (date_today + 1)\<rparr>)
              else
                (True, ''Proposed full payment now.'',
                 \<lparr>total_cents = amount iv, currency = Invoice.currency iv,
                  immediate_cents = amount iv, scheduled_cents = 0, scheduled_date = None\<rparr>))"

text \<open>
  \<^verbatim>\<open>tool_execute_payment\<close> mutates the account it is given; the model returns the account
  after the call as a fourth component. A call either returns (\<open>Inr\<close>) or raises
  (\<open>Inl\<close>): the success message is built after the account has been debited, so the
  \<^verbatim>\<open>OverflowError\<close> of its rendering leaves the account debited, and the model gives the
  account as it is when the exception leaves the function.
\<close>

definition tool_execute_payment ::
  "Env \<Rightarrow> string \<Rightarrow> Account \<Rightarrow> int \<Rightarrow> string
     \<Rightarrow> (exn \<times> Account) + (bool \<times> string \<times> string \<times> Account)" where
  "tool_execute_payment env uuid acct cents cur =
     (if cents \<le> 0 then Inr (True, ''Nothing to execute.'', uuid, acct)
      else if balance_cents acct < cents then
        Inr (False, ''Execution failed: insufficient funds.'', '''', acct)
      else
        let acct = acct\<lparr>balance_cents := balance_cents acct - cents\<rparr>;
            acct = acct\<lparr>spent_today_cents := spent_today_cents acct + cents\<rparr>;
            txn_id = uuid
        in case render_cents env cents of
             Inl e \<Rightarrow> Inl (e, acct)
           | Inr shown \<Rightarrow> Inr (True, ''Executed '' @ shown @ '' '' @ cur @ ''.'', txn_id, acct))"

definition tool_schedule_payment ::
  "Env \<Rightarrow> string \<Rightarrow> date option \<Rightarrow> int \<Rightarrow> string \<Rightarrow> exn + (bool \<times> string \<times> string)" where
  "tool_schedule_payment env uuid d cents cur =
     (if cents \<le> 0 then Inr (True, ''Nothing to schedule.'', uuid)
      else
        let sch_id = ''SCH-'' @ uuid
        in case render_cents env cents of
             Inl e \<Rightarrow> Inl e
           | Inr shown \<Rightarrow>
               Inr (True,
                    ''Scheduled '' @ shown @ '' '' @ cur @ '' for '' @ fmt_date env d @ ''.'',
                    sch_id))"

section \<open>Reasoner (thought)\<close>

text \<open>The action names the reasoner returns; \<^verbatim>\<open>None\<close> is \<open>None\<close>.\<close>

datatype action =
  ValidateInvoice | RunKyc | RunAml | ProposePlan | ExecuteImmediate | ScheduleRemainder

fun action_name :: "action \<Rightarrow> string" where
  "action_name ValidateInvoice = ''validate_invoice''"
| "action_name RunKyc = ''run_kyc''"
| "action_name RunAml = ''run_aml''"
| "action_name ProposePlan = ''propose_plan''"
| "action_name ExecuteImmediate = ''execute_immediate''"
| "action_name ScheduleRemainder = ''schedule_remainder''"

text \<open>
  The planner's first test, \<^verbatim>\<open>any("Invoice validated." in line for line in mem.audit_log)\<close>.
\<close>

definition validated :: "Memory \<Rightarrow> bool" where
  "validated mem = list_ex (\<lambda>line. sublist ''Invoice validated.'' line) (audit_log mem)"

definition next_action :: "Memory \<Rightarrow> action option" where
  "next_action mem =
     (if \<not> validated mem then Some ValidateInvoice
      else if vendor_kyc_ok mem = None then Some RunKyc
      else if vendor_aml_ok mem = None then Some RunAml
      else case payment_plan mem of
             None \<Rightarrow> Some ProposePlan
           | Some plan \<Rightarrow>
               if executed_amount_cents mem < immediate_cents plan then Some ExecuteImmediate
               else if \<not> scheduled mem \<and> scheduled_cents plan > 0 then Some ScheduleRemainder
               else None)"

section \<open>ReAct orchestrator\<close>

text \<open>
  One iteration of the \<^verbatim>\<open>while True\<close> loop of \<^verbatim>\<open>run_episode\<close>, with \<open>step\<close> already
  incremented. It ends in \<open>Continue\<close> (the loop goes round again), in \<open>Break\<close> (a
  \<^verbatim>\<open>break\<close> statement) or in \<open>Raised\<close> (an exception leaves the loop, nothing in the
  program catches it); each carries the memory as the iteration leaves it. Each branch of
  the loop's \<^verbatim>\<open>if\<close>/\<^verbatim>\<open>elif\<close> chain is a definition of its own (\<open>do_validate_invoice\<close>,
  ...), entered after the Thought line has been logged. The two payment branches render
  the amount a second time, for their Action line, after the tool has returned.
\<close>

datatype outcome = Continue Memory | Break Memory | Raised exn Memory

definition thought :: "nat \<Rightarrow> action \<Rightarrow> string" where
  "thought step a =
     ''Thought '' @ show_nat step @ '': Deciding to '' @ [CHR 0x27] @ action_name a @ [CHR 0x27] @ ''.''"

definition do_validate_invoice :: "Env \<Rightarrow> nat \<Rightarrow> Memory \<Rightarrow> outcome" where
  "do_validate_invoice env step mem =
     (let (ok, msg) = tool_validate_invoice (today env step) mem;
          mem = log (now env step 1) (''Action '' @ show_nat step @ '': validate_invoice()'') mem;
          mem = log (now env step 2) (''Observation '' @ show_nat step @ '': '' @ msg) mem
      in if \<not> ok then Break mem else Continue mem)"

definition do_run_kyc :: "Env \<Rightarrow> nat \<Rightarrow> Memory \<Rightarrow> outcome" where
  "do_run_kyc env step mem =
     (let (ok, msg) = tool_run_kyc (vendor_id (invoice mem));
          mem = mem\<lparr>vendor_kyc_ok := Some ok\<rparr>;
          mem = log (now env step 1)
                  (''Action '' @ show_nat step @ '': run_kyc('' @ vendor_id (invoice mem) @ '')'') mem;
          mem = log (now env step 2) (''Observation '' @ show_nat step @ '': '' @ msg) mem
      in if \<not> ok then Break mem else Continue mem)"

definition do_run_aml :: "Env \<Rightarrow> nat \<Rightarrow> Memory \<Rightarrow> outcome" where
  "do_run_aml env step mem =
     (let (ok, msg) = tool_run_aml_screening (vendor_id (invoice mem));
          mem = mem\<lparr>vendor_aml_ok := Some ok\<rparr>;
          mem = log (now env step 1)
                  (''Action '' @ show_nat step @ '': run_aml('' @ vendor_id (invoice mem) @ '')'') mem;
          mem = log (now env step 2) (''Observation '' @ show_nat step @ '': '' @ msg) mem
      in if \<not> ok then Break mem else Continue mem)"

definition do_propose_plan :: "Env \<Rightarrow> nat \<Rightarrow> Memory \<Rightarrow> outcome" where
  "do_propose_plan env step mem =
     (let (ok, msg, plan) = tool_propose_plan (today env step) mem;
          mem = mem\<lparr>payment_plan := (if ok then Some plan else None)\<rparr>;
          mem = log (now env step 1) (''Action '' @ show_nat step @ '': propose_plan()'') mem;
          mem = log (now env step 2) (''Observation '' @ show_nat step @ '': '' @ msg) mem
      in Continue mem)"

definition do_execute_immediate :: "Env \<Rightarrow> nat \<Rightarrow> Memory \<Rightarrow> outcome" where
  "do_execute_immediate env step mem =
     (case payment_plan mem of
        None \<Rightarrow> Raised AttributeError mem
      | Some plan \<Rightarrow>
          let cents = immediate_cents plan
          in case tool_execute_payment env (uuid4 env step) (account mem) cents
                    (PaymentPlan.currency plan) of
               Inl (e, acct) \<Rightarrow> Raised e (mem\<lparr>account := acct\<rparr>)
             | Inr (ok, msg, txn, acct) \<Rightarrow>
                 let mem = mem\<lparr>account := acct\<rparr>
                 in case render_cents env cents of
                      Inl e \<Rightarrow> Raised e mem
                    | Inr shown \<Rightarrow>
                        let mem = log (now env step 1)
                                    (''Action '' @ show_nat step @ '': execute_payment('' @ shown
                                      @ '' '' @ PaymentPlan.currency plan @ '')'') mem;
                            mem = log (now env step 2)
                                    (''Observation '' @ show_nat step @ '': '' @ msg
                                      @ '' (txn='' @ txn @ '')'') mem
                        in Continue (if ok then mem\<lparr>executed_amount_cents := cents\<rparr> else mem))"

definition do_schedule_remainder :: "Env \<Rightarrow> nat \<Rightarrow> Memory \<Rightarrow> outcome" where
  "do_schedule_remainder env step mem =
     (case payment_plan mem of
        None \<Rightarrow> Raised AttributeError mem
      | Some plan \<Rightarrow>
          let cents = scheduled_cents plan;
              d = scheduled_date plan
          in case tool_schedule_payment env (uuid4 env step) d cents
                    (PaymentPlan.currency plan) of
               Inl e \<Rightarrow> Raised e mem
             | Inr (ok, msg, sch) \<Rightarrow>
                 (case render_cents env cents of
                    Inl e \<Rightarrow> Raised e mem
                  | Inr shown \<Rightarrow>
                      let mem = log (now env step 1)
                                  (''Action '' @ show_nat step @ '': schedule_payment('' @ shown
                                    @ '' '' @ PaymentPlan.currency plan @ '' on ''
                                    @ fmt_date env d @ '')'') mem;
                          mem = log (now env step 2)
                                  (''Observation '' @ show_nat step @ '': '' @ msg
                                    @ '' (id='' @ sch @ '')'') mem
                      in Continue (if ok then mem\<lparr>scheduled := True\<rparr> else mem)))"

definition iteration :: "Env \<Rightarrow> nat \<Rightarrow> Memory \<Rightarrow> outcome" where
  "iteration env step mem =
     (case next_action mem of
        None \<Rightarrow> Break (log (now env step 0) (''Thought '' @ show_nat step @ '': Done.'') mem)
      | Some a \<Rightarrow>
          let mem = log (now env step 0) (thought step a) mem
          in (case a of
                ValidateInvoice \<Rightarrow> do_validate_invoice env step mem
              | RunKyc \<Rightarrow> do_run_kyc env step mem
              | RunAml \<Rightarrow> do_run_aml env step mem
              | ProposePlan \<Rightarrow> do_propose_plan env step mem
              | ExecuteImmediate \<Rightarrow> do_execute_immediate env step mem
              | ScheduleRemainder \<Rightarrow> do_schedule_remainder env step mem))"

text \<open>
  The loop. It may run forever, so it is a partial function: \<open>None\<close> is a run that never
  leaves the loop. A run that leaves it yields the final value of \<^verbatim>\<open>step\<close> (the number of
  iterations made) and either the memory as \<^verbatim>\<open>run_episode\<close> leaves it (\<open>Inr\<close>) or the
  exception that ended the run, with the memory as it is then (\<open>Inl\<close>).
\<close>

partial_function (option) run_loop ::
  "Env \<Rightarrow> nat \<Rightarrow> Memory \<Rightarrow> (nat \<times> ((exn \<times> Memory) + Memory)) option" where
  "run_loop env step mem =
     (let step = step + 1
      in case iteration env step mem of
           Continue mem' \<Rightarrow> run_loop env step mem'
         | Break mem' \<Rightarrow> Some (step, Inr mem')
         | Raised e mem' \<Rightarrow> Some (step, Inl (e, mem')))"

definition run_episode :: "Env \<Rightarrow> Memory \<Rightarrow> (nat \<times> ((exn \<times> Memory) + Memory)) option" where
  "run_episode env mem = run_loop env 0 mem"

text \<open>\<^verbatim>\<open>Memory(invoice, account)\<close>: every other field at its default.\<close>

definition fresh_memory :: "Invoice \<Rightarrow> Account \<Rightarrow> Memory" where
  "fresh_memory iv acct =
     \<lparr>invoice = iv, account = acct, vendor_kyc_ok = None, vendor_aml_ok = None,
      payment_plan = None, executed_amount_cents = 0, scheduled = False, errors = [],
      audit_log = []\<rparr>"

section \<open>A concrete environment and the demonstration run\<close>

text \<open>
  An environment for evaluating the model on concrete inputs: a clock standing at
  2026-11-04 (ordinal 739924), one identifier, amounts rendered as exact decimals with
  two places, and dates rendered by their ordinal.
\<close>

definition decimal_cents :: "int \<Rightarrow> string" where
  "decimal_cents c =
     (let n = nat \<bar>c\<bar>
      in (if c < 0 then ''-'' else '''') @ show_nat (n div 100) @ ''.''
           @ show_nat (n mod 100 div 10) @ show_nat (n mod 10))"

definition demo_env :: Env where
  "demo_env =
     \<lparr>today = (\<lambda>_. 739924),
      now = (\<lambda>_ _. ''2026-11-04T09:00:00''),
      uuid4 = (\<lambda>_. ''1b4e28ba-2fa1-4d3b-a3f5-ef19b5a7633b''),
      fmt_cents = decimal_cents,
      fmt_date = (\<lambda>d. case d of None \<Rightarrow> ''None'' | Some n \<Rightarrow> ''day '' @ show_nat (nat n))\<rparr>"

text \<open>The invoice and the account of the \<^verbatim>\<open>__main__\<close> block.\<close>

definition demo_invoice :: Invoice where
  "demo_invoice =
     \<lparr>invoice_id = ''INV-1001'', vendor_id = ''ACME_CO'', amount = 25000,
      Invoice.currency = ''USD'', due_date = 739924 + 5, memo = ''Monthly hosting fee''\<rparr>"

definition demo_account :: Account where
  "demo_account =
     \<lparr>account_id = ''OPERATING-USD'', balance_cents = 18000, daily_limit_cents = 50000,
      spent_today_cents = 0\<rparr>"

section \<open>The planner as an ordered guard chain\<close>




section \<open>Runs of the loop, state by state\<close>

text \<open>
  \<open>state_after env mem k\<close> is the memory with which the loop started on \<open>mem\<close> enters its
  iteration number \<open>k + 1\<close>, if it gets that far.
\<close>

primrec state_after :: "Env \<Rightarrow> Memory \<Rightarrow> nat \<Rightarrow> Memory option" where
  "state_after env mem 0 = Some mem"
| "state_after env mem (Suc k) =
     (case state_after env mem k of
        None \<Rightarrow> None
      | Some m \<Rightarrow> (case iteration env (Suc k) m of Continue m' \<Rightarrow> Some m' | _ \<Rightarrow> None))"

text \<open>
  The place of the planner's answer in its guard chain, and the condition under which a
  dispatched \<^verbatim>\<open>execute_immediate\<close> finds the money: nothing negative has been executed and
  a plan whose immediate part is still to be executed asks for no more than the balance.
\<close>

fun rank :: "action option \<Rightarrow> nat" where
  "rank (Some ValidateInvoice) = 0"
| "rank (Some RunKyc) = 1"
| "rank (Some RunAml) = 2"
| "rank (Some ProposePlan) = 3"
| "rank (Some ExecuteImmediate) = 4"
| "rank (Some ScheduleRemainder) = 5"
| "rank None = 6"

definition funded :: "Memory \<Rightarrow> bool" where
  "funded mem =
     (0 \<le> executed_amount_cents mem \<and>
      (case payment_plan mem of
         None \<Rightarrow> True
       | Some plan \<Rightarrow>
           \<not> executed_amount_cents mem < immediate_cents plan
           \<or> immediate_cents plan \<le> balance_cents (account mem)))"

text \<open>
  \<open>amount_overflows mem\<close>: the iteration about to be made on \<open>mem\<close> is a payment branch and
  the amount it has to render (the plan's immediate part for \<^verbatim>\<open>execute_immediate\<close>, its
  scheduled part for \<^verbatim>\<open>schedule_remainder\<close>) is beyond the range of a float.
  \<open>plan_renders mem\<close>: every amount a run from \<open>mem\<close> can come to render is within it.
\<close>

definition amount_overflows :: "Memory \<Rightarrow> bool" where
  "amount_overflows mem =
     (case payment_plan mem of
        None \<Rightarrow> False
      | Some plan \<Rightarrow>
          (next_action mem = Some ExecuteImmediate \<and> float_overflow (immediate_cents plan))
          \<or> (next_action mem = Some ScheduleRemainder \<and> float_overflow (scheduled_cents plan)))"

definition plan_renders :: "Memory \<Rightarrow> bool" where
  "plan_renders mem =
     (case payment_plan mem of
        None \<Rightarrow> \<not> float_overflow (amount (invoice mem))
      | Some plan \<Rightarrow>
          \<not> float_overflow (immediate_cents plan) \<and> \<not> float_overflow (scheduled_cents plan))"

text \<open>
  A memory in which the planner asks for \<^verbatim>\<open>execute_immediate\<close> and the payment cannot be
  made: the plan's immediate part is positive and above the balance (and within the range
  of a float, so that the Action line can be written).
\<close>

definition stuck :: "Memory \<Rightarrow> bool" where
  "stuck mem =
     (next_action mem = Some ExecuteImmediate \<and>
      (case payment_plan mem of
         None \<Rightarrow> False
       | Some plan \<Rightarrow>
           0 < immediate_cents plan \<and> balance_cents (account mem) < immediate_cents plan
           \<and> \<not> float_overflow (immediate_cents plan)))"

text \<open>
  The three audit lines of an iteration that dispatches action \<open>a\<close>, as the loop writes
  them: the Thought naming the action, the Action naming the call and its arguments, and
  the Observation carrying the handler's message and, for the two payment handlers, the
  identifier it produced (nothing where the handler raises instead of returning).
\<close>

definition call_text :: "Env \<Rightarrow> Memory \<Rightarrow> action \<Rightarrow> string" where
  "call_text env mem a =
     (case a of
        ValidateInvoice \<Rightarrow> ''validate_invoice()''
      | RunKyc \<Rightarrow> ''run_kyc('' @ vendor_id (invoice mem) @ '')''
      | RunAml \<Rightarrow> ''run_aml('' @ vendor_id (invoice mem) @ '')''
      | ProposePlan \<Rightarrow> ''propose_plan()''
      | ExecuteImmediate \<Rightarrow>
          (case payment_plan mem of
             None \<Rightarrow> []
           | Some plan \<Rightarrow>
               ''execute_payment('' @ fmt_cents env (immediate_cents plan) @ '' ''
                 @ PaymentPlan.currency plan @ '')'')
      | ScheduleRemainder \<Rightarrow>
          (case payment_plan mem of
             None \<Rightarrow> []
           | Some plan \<Rightarrow>
               ''schedule_payment('' @ fmt_cents env (scheduled_cents plan) @ '' ''
                 @ PaymentPlan.currency plan @ '' on '' @ fmt_date env (scheduled_date plan)
                 @ '')''))"

definition observed_text :: "Env \<Rightarrow> nat \<Rightarrow> Memory \<Rightarrow> action \<Rightarrow> string" where
  "observed_text env step mem a =
     (case a of
        ValidateInvoice \<Rightarrow> snd (tool_validate_invoice (today env step) mem)
      | RunKyc \<Rightarrow> snd (tool_run_kyc (vendor_id (invoice mem)))
      | RunAml \<Rightarrow> snd (tool_run_aml_screening (vendor_id (invoice mem)))
      | ProposePlan \<Rightarrow> fst (snd (tool_propose_plan (today env step) mem))
      | ExecuteImmediate \<Rightarrow>
          (case payment_plan mem of
             None \<Rightarrow> []
           | Some plan \<Rightarrow>
               (case tool_execute_payment env (uuid4 env step) (account mem)
                       (immediate_cents plan) (PaymentPlan.currency plan) of
                  Inl _ \<Rightarrow> []
                | Inr (ok, msg, txn, acct) \<Rightarrow> msg @ '' (txn='' @ txn @ '')''))
      | ScheduleRemainder \<Rightarrow>
          (case payment_plan mem of
             None \<Rightarrow> []
           | Some plan \<Rightarrow>
               (case tool_schedule_payment env (uuid4 env step) (scheduled_date plan)
                       (scheduled_cents plan) (PaymentPlan.currency plan) of
                  Inl _ \<Rightarrow> []
                | Inr (ok, msg, sch) \<Rightarrow> msg @ '' (id='' @ sch @ '')'')))"

definition audit_lines :: "Env \<Rightarrow> nat \<Rightarrow> Memory \<Rightarrow> action \<Rightarrow> string list" where
  "audit_lines env step mem a =
     [now env step 0 @ '' | '' @ thought step a,
      now env step 1 @ '' | '' @ ''Action '' @ show_nat step @ '': '' @ call_text env mem a,
      now env step 2 @ '' | '' @ ''Observation '' @ show_nat step @ '': ''
        @ observed_text env step mem a]"

text \<open>
  Scenario A of the specification, and the run it is expected to give: the plan, the
  audit lines in order, and the memory after \<open>k\<close> iterations (\<open>k\<close> from 0 to 6).
\<close>

definition scenario_A :: "Env \<Rightarrow> Invoice \<Rightarrow> Account \<Rightarrow> bool" where
  "scenario_A env iv acct =
     (amount iv = 25000 \<and> Invoice.currency iv = ''USD'' \<and> due_date iv = today env 1 + 5
      \<and> balance_cents acct = 18000 \<and> daily_limit_cents acct = 50000
      \<and> spent_today_cents acct = 0
      \<and> \<not> suffix ''X'' (vendor_id iv) \<and> vendor_id iv \<notin> {''OFAC123'', ''AML999''})"

definition scenario_plan :: "Env \<Rightarrow> PaymentPlan" where
  "scenario_plan env =
     \<lparr>total_cents = 25000, currency = ''USD'', immediate_cents = 18000,
      scheduled_cents = 7000, scheduled_date = Some (today env 4 + 1)\<rparr>"

definition scenario_lines :: "Env \<Rightarrow> Invoice \<Rightarrow> string list" where
  "scenario_lines env iv =
     [now env 1 0 @ '' | Thought 1: Deciding to 'validate_invoice'.'',
      now env 1 1 @ '' | Action 1: validate_invoice()'',
      now env 1 2 @ '' | Observation 1: Invoice validated.'',
      now env 2 0 @ '' | Thought 2: Deciding to 'run_kyc'.'',
      now env 2 1 @ '' | Action 2: run_kyc('' @ vendor_id iv @ '')'',
      now env 2 2 @ '' | Observation 2: KYC passed.'',
      now env 3 0 @ '' | Thought 3: Deciding to 'run_aml'.'',
      now env 3 1 @ '' | Action 3: run_aml('' @ vendor_id iv @ '')'',
      now env 3 2 @ '' | Observation 3: AML screening passed.'',
      now env 4 0 @ '' | Thought 4: Deciding to 'propose_plan'.'',
      now env 4 1 @ '' | Action 4: propose_plan()'',
      now env 4 2 @ '' | Observation 4: Proposed split: partial now, remainder tomorrow.'',
      now env 5 0 @ '' | Thought 5: Deciding to 'execute_immediate'.'',
      now env 5 1 @ '' | Action 5: execute_payment('' @ fmt_cents env 18000 @ '' USD)'',
      now env 5 2 @ '' | Observation 5: Executed '' @ fmt_cents env 18000 @ '' USD. (txn=''
        @ uuid4 env 5 @ '')'',
      now env 6 0 @ '' | Thought 6: Deciding to 'schedule_remainder'.'',
      now env 6 1 @ '' | Action 6: schedule_payment('' @ fmt_cents env 7000 @ '' USD on ''
        @ fmt_date env (Some (today env 4 + 1)) @ '')'',
      now env 6 2 @ '' | Observation 6: Scheduled '' @ fmt_cents env 7000 @ '' USD for ''
        @ fmt_date env (Some (today env 4 + 1)) @ ''. (id=SCH-'' @ uuid4 env 6 @ '')'',
      now env 7 0 @ '' | Thought 7: Done.'']"

definition scenario_mem :: "Env \<Rightarrow> Invoice \<Rightarrow> Account \<Rightarrow> nat \<Rightarrow> Memory" where
  "scenario_mem env iv acct k =
     \<lparr>invoice = iv,
      account = (if 5 \<le> k then acct\<lparr>balance_cents := 0, spent_today_cents := 18000\<rparr>
                 else acct),
      vendor_kyc_ok = (if 2 \<le> k then Some True else None),
      vendor_aml_ok = (if 3 \<le> k then Some True else None),
      payment_plan = (if 4 \<le> k then Some (scenario_plan env) else None),
      executed_amount_cents = (if 5 \<le> k then 18000 else 0),
      scheduled = (6 \<le> k),
      errors = [],
      audit_log = take (3 * k) (scenario_lines env iv)\<rparr>"

text \<open>Memories and accounts used as concrete inputs below.\<close>

definition overspent_account :: Account where
  "overspent_account =
     \<lparr>account_id = ''OPERATING-USD'', balance_cents = 18000, daily_limit_cents = 50000,
      spent_today_cents = 60000\<rparr>"

definition small_limit_account :: Account where
  "small_limit_account =
     \<lparr>account_id = ''OPERATING-USD'', balance_cents = 1000, daily_limit_cents = 100,
      spent_today_cents = 0\<rparr>"

definition demo_plan :: PaymentPlan where
  "demo_plan =
     \<lparr>total_cents = 25000, currency = ''USD'', immediate_cents = 18000,
      scheduled_cents = 7000, scheduled_date = Some 739925\<rparr>"

definition done_memory :: Memory where
  "done_memory =
     \<lparr>invoice = demo_invoice,
      account = demo_account\<lparr>balance_cents := 0, spent_today_cents := 18000\<rparr>,
      vendor_kyc_ok = Some True, vendor_aml_ok = Some True, payment_plan = Some demo_plan,
      executed_amount_cents = 18000, scheduled = True, errors = [],
      audit_log = [''2026-11-04T09:00:00 | Observation 1: Invoice validated.'']\<rparr>"

definition unfunded_memory :: Memory where
  "unfunded_memory =
     done_memory\<lparr>executed_amount_cents := 0, scheduled := False\<rparr>"

definition huge_cents :: int where
  "huge_cents = 10 ^ 311"

definition huge_plan :: PaymentPlan where
  "huge_plan =
     \<lparr>total_cents = huge_cents, currency = ''USD'', immediate_cents = huge_cents,
      scheduled_cents = 0, scheduled_date = None\<rparr>"

definition huge_memory :: Memory where
  "huge_memory = unfunded_memory\<lparr>payment_plan := Some huge_plan\<rparr>"

section \<open>Basic facts\<close>

declare show_nat.simps [simp del]

lemma log_fields [simp]:
  "invoice (log ts msg mem) = invoice mem"
  "account (log ts msg mem) = account mem"
  "vendor_kyc_ok (log ts msg mem) = vendor_kyc_ok mem"
  "vendor_aml_ok (log ts msg mem) = vendor_aml_ok mem"
  "payment_plan (log ts msg mem) = payment_plan mem"
  "executed_amount_cents (log ts msg mem) = executed_amount_cents mem"
  "scheduled (log ts msg mem) = scheduled mem"
  "errors (log ts msg mem) = errors mem"
  "audit_log (log ts msg mem) = audit_log mem @ [ts @ '' | '' @ msg]"
  by (simp_all add: log_def)

lemma validated_iff:
  "validated mem \<longleftrightarrow>
     (\<exists>line \<in> set (audit_log mem). \<exists>ps ss. line = ps @ ''Invoice validated.'' @ ss)"
  by (simp add: validated_def list_ex_iff sublist_def)

lemma next_action_plan:
  "next_action mem = Some ExecuteImmediate \<or> next_action mem = Some ScheduleRemainder
     \<Longrightarrow> \<exists>plan. payment_plan mem = Some plan"
  by (cases "payment_plan mem") (auto simp add: next_action_def split: if_splits)

subsection \<open>Rendering an amount\<close>

lemma float_overflow_small: "\<bar>c\<bar> \<le> 10 ^ 18 \<Longrightarrow> \<not> float_overflow c"
  by (simp add: float_overflow_def float_limit_cents_def)

lemma float_overflow_mono: "\<bar>a\<bar> \<le> \<bar>b\<bar> \<Longrightarrow> \<not> float_overflow b \<Longrightarrow> \<not> float_overflow a"
  by (simp add: float_overflow_def)

lemma float_overflow_huge: "float_overflow (10 ^ 311)"
  by (simp add: float_overflow_def float_limit_cents_def)

lemma render_cents_ok: "\<not> float_overflow c \<Longrightarrow> render_cents env c = Inr (fmt_cents env c)"
  by (simp add: render_cents_def)

lemma render_cents_overflow: "float_overflow c \<Longrightarrow> render_cents env c = Inl OverflowError"
  by (simp add: render_cents_def)

subsection \<open>The results of the two payment tools\<close>

lemma tool_execute_payment_result:
  "cents \<le> 0 \<Longrightarrow>
     tool_execute_payment env uuid acct cents cur = Inr (True, ''Nothing to execute.'', uuid, acct)"
  "0 < cents \<Longrightarrow> balance_cents acct < cents \<Longrightarrow>
     tool_execute_payment env uuid acct cents cur
       = Inr (False, ''Execution failed: insufficient funds.'', '''', acct)"
  "0 < cents \<Longrightarrow> cents \<le> balance_cents acct \<Longrightarrow> \<not> float_overflow cents \<Longrightarrow>
     tool_execute_payment env uuid acct cents cur
       = Inr (True, ''Executed '' @ fmt_cents env cents @ '' '' @ cur @ ''.'', uuid,
              acct\<lparr>balance_cents := balance_cents acct - cents,
                   spent_today_cents := spent_today_cents acct + cents\<rparr>)"
  "0 < cents \<Longrightarrow> cents \<le> balance_cents acct \<Longrightarrow> float_overflow cents \<Longrightarrow>
     tool_execute_payment env uuid acct cents cur
       = Inl (OverflowError,
              acct\<lparr>balance_cents := balance_cents acct - cents,
                   spent_today_cents := spent_today_cents acct + cents\<rparr>)"
  by (simp_all add: tool_execute_payment_def render_cents_def Let_def)

lemma tool_execute_payment_fails:
  "tool_execute_payment env uuid acct cents cur = Inr (False, msg, txn, acct')
     \<longleftrightarrow> 0 < cents \<and> balance_cents acct < cents
         \<and> msg = ''Execution failed: insufficient funds.'' \<and> txn = '''' \<and> acct' = acct"
  by (auto simp add: tool_execute_payment_def render_cents_def Let_def)

lemma tool_execute_payment_returns:
  "\<not> float_overflow cents \<Longrightarrow>
     \<exists>ok msg txn acct'. tool_execute_payment env uuid acct cents cur = Inr (ok, msg, txn, acct')"
  by (auto simp add: tool_execute_payment_def render_cents_def Let_def)

lemma tool_schedule_payment_result:
  "cents \<le> 0 \<Longrightarrow>
     tool_schedule_payment env uuid d cents cur = Inr (True, ''Nothing to schedule.'', uuid)"
  "0 < cents \<Longrightarrow> \<not> float_overflow cents \<Longrightarrow>
     tool_schedule_payment env uuid d cents cur
       = Inr (True,
              ''Scheduled '' @ fmt_cents env cents @ '' '' @ cur @ '' for '' @ fmt_date env d @ ''.'',
              ''SCH-'' @ uuid)"
  "0 < cents \<Longrightarrow> float_overflow cents \<Longrightarrow>
     tool_schedule_payment env uuid d cents cur = Inl OverflowError"
  by (simp_all add: tool_schedule_payment_def render_cents_def Let_def)

lemma tool_schedule_payment_never_fails:
  "tool_schedule_payment env uuid d cents cur \<noteq> Inr (False, msg, sch)"
  by (simp add: tool_schedule_payment_def render_cents_def Let_def)

lemma tool_schedule_payment_returns:
  "\<not> float_overflow cents \<Longrightarrow>
     \<exists>msg sch. tool_schedule_payment env uuid d cents cur = Inr (True, msg, sch)"
  by (simp add: tool_schedule_payment_def render_cents_def Let_def)

lemma tool_validate_invoice_log [simp]:
  "tool_validate_invoice t (log ts msg mem) = tool_validate_invoice t mem"
  by (simp add: tool_validate_invoice_def)

lemma tool_propose_plan_log [simp]:
  "tool_propose_plan t (log ts msg mem) = tool_propose_plan t mem"
  by (simp add: tool_propose_plan_def)

lemma tool_propose_plan_ok [simp]: "fst (tool_propose_plan t mem)"
  unfolding tool_propose_plan_def Let_def by simp

subsection \<open>One iteration, branch by branch\<close>

lemma iteration_done:
  "next_action mem = None \<Longrightarrow>
     iteration env step mem
       = Break (mem\<lparr>audit_log := audit_log mem @
                  [now env step 0 @ '' | '' @ ''Thought '' @ show_nat step @ '': Done.'']\<rparr>)"
  by (simp add: iteration_def log_def)

lemma iteration_validate:
  "next_action mem = Some ValidateInvoice \<Longrightarrow>
     iteration env step mem
       = (if fst (tool_validate_invoice (today env step) mem) then Continue else Break)
           (mem\<lparr>audit_log := audit_log mem @ audit_lines env step mem ValidateInvoice\<rparr>)"
  by (simp add: iteration_def do_validate_invoice_def split_def Let_def audit_lines_def
        call_text_def observed_text_def)

lemma iteration_kyc:
  "next_action mem = Some RunKyc \<Longrightarrow>
     iteration env step mem
       = (if fst (tool_run_kyc (vendor_id (invoice mem))) then Continue else Break)
           (mem\<lparr>vendor_kyc_ok := Some (fst (tool_run_kyc (vendor_id (invoice mem)))),
                audit_log := audit_log mem @ audit_lines env step mem RunKyc\<rparr>)"
  by (simp add: iteration_def do_run_kyc_def split_def Let_def audit_lines_def
        call_text_def observed_text_def)

lemma iteration_aml:
  "next_action mem = Some RunAml \<Longrightarrow>
     iteration env step mem
       = (if fst (tool_run_aml_screening (vendor_id (invoice mem))) then Continue else Break)
           (mem\<lparr>vendor_aml_ok := Some (fst (tool_run_aml_screening (vendor_id (invoice mem)))),
                audit_log := audit_log mem @ audit_lines env step mem RunAml\<rparr>)"
  by (simp add: iteration_def do_run_aml_def split_def Let_def audit_lines_def
        call_text_def observed_text_def)

lemma iteration_propose:
  "next_action mem = Some ProposePlan \<Longrightarrow>
     iteration env step mem
       = Continue
           (mem\<lparr>payment_plan := Some (snd (snd (tool_propose_plan (today env step) mem))),
                audit_log := audit_log mem @ audit_lines env step mem ProposePlan\<rparr>)"
  by (simp add: iteration_def do_propose_plan_def split_def Let_def audit_lines_def
        call_text_def observed_text_def)

lemma iteration_execute:
  assumes "next_action mem = Some ExecuteImmediate" and "payment_plan mem = Some plan"
    and "tool_execute_payment env (uuid4 env step) (account mem) (immediate_cents plan)
           (PaymentPlan.currency plan) = Inr (ok, msg, txn, acct')"
    and "\<not> float_overflow (immediate_cents plan)"
  shows "iteration env step mem
       = Continue
           (mem\<lparr>account := acct',
                executed_amount_cents :=
                  (if ok then immediate_cents plan else executed_amount_cents mem),
                audit_log := audit_log mem @ audit_lines env step mem ExecuteImmediate\<rparr>)"
  using assms
  by (simp add: iteration_def do_execute_immediate_def Let_def audit_lines_def
        call_text_def observed_text_def render_cents_def)

lemma iteration_execute_overflow:
  assumes "next_action mem = Some ExecuteImmediate" and "payment_plan mem = Some plan"
    and "float_overflow (immediate_cents plan)"
  shows "iteration env step mem
       = Raised OverflowError
           (mem\<lparr>account :=
                  (if 0 < immediate_cents plan
                      \<and> immediate_cents plan \<le> balance_cents (account mem)
                   then (account mem)
                          \<lparr>balance_cents := balance_cents (account mem) - immediate_cents plan,
                           spent_today_cents :=
                             spent_today_cents (account mem) + immediate_cents plan\<rparr>
                   else account mem),
                audit_log := audit_log mem @
                  [now env step 0 @ '' | '' @ thought step ExecuteImmediate]\<rparr>)"
  using assms
  by (simp add: iteration_def do_execute_immediate_def Let_def tool_execute_payment_def
        render_cents_def log_def)

lemma iteration_schedule:
  assumes "next_action mem = Some ScheduleRemainder" and "payment_plan mem = Some plan"
    and "\<not> float_overflow (scheduled_cents plan)"
  shows "iteration env step mem
       = Continue
           (mem\<lparr>scheduled := True,
                audit_log := audit_log mem @ audit_lines env step mem ScheduleRemainder\<rparr>)"
  using assms
  by (simp add: iteration_def do_schedule_remainder_def Let_def audit_lines_def
        call_text_def observed_text_def tool_schedule_payment_def render_cents_def)

lemma iteration_schedule_overflow:
  assumes "next_action mem = Some ScheduleRemainder" and "payment_plan mem = Some plan"
    and "float_overflow (scheduled_cents plan)"
  shows "iteration env step mem
       = Raised OverflowError
           (mem\<lparr>audit_log := audit_log mem @
                  [now env step 0 @ '' | '' @ thought step ScheduleRemainder]\<rparr>)"
  using assms
  by (simp add: iteration_def do_schedule_remainder_def Let_def tool_schedule_payment_def
        render_cents_def log_def)

subsection \<open>Exceptions\<close>

lemma amount_overflows_cases:
  "amount_overflows mem \<longleftrightarrow>
     (\<exists>plan. payment_plan mem = Some plan
        \<and> (next_action mem = Some ExecuteImmediate \<and> float_overflow (immediate_cents plan)
           \<or> next_action mem = Some ScheduleRemainder \<and> float_overflow (scheduled_cents plan)))"
  by (simp add: amount_overflows_def split: option.split)

lemma iteration_raises:
  "(\<exists>mem'. iteration env step mem = Raised e mem') \<longleftrightarrow> e = OverflowError \<and> amount_overflows mem"
proof (cases "next_action mem")
  case None
  then show ?thesis by (auto simp add: iteration_done amount_overflows_cases)
next
  case (Some a)
  show ?thesis
  proof (cases a)
    case ValidateInvoice
    with Some show ?thesis by (simp add: iteration_validate amount_overflows_cases)
  next
    case RunKyc
    with Some show ?thesis by (simp add: iteration_kyc amount_overflows_cases)
  next
    case RunAml
    with Some show ?thesis by (simp add: iteration_aml amount_overflows_cases)
  next
    case ProposePlan
    with Some show ?thesis by (simp add: iteration_propose amount_overflows_cases)
  next
    case ExecuteImmediate
    with Some have n: "next_action mem = Some ExecuteImmediate" by simp
    then obtain plan where p: "payment_plan mem = Some plan"
      using next_action_plan [of mem] by auto
    show ?thesis
    proof (cases "float_overflow (immediate_cents plan)")
      case True
      with n p show ?thesis
        by (auto simp add: iteration_execute_overflow amount_overflows_cases)
    next
      case False
      from tool_execute_payment_returns [OF False] obtain ok msg txn acct'
        where "tool_execute_payment env (uuid4 env step) (account mem) (immediate_cents plan)
                 (PaymentPlan.currency plan) = Inr (ok, msg, txn, acct')"
        by blast
      from iteration_execute [OF n p this False] n p False show ?thesis
        by (simp add: amount_overflows_cases)
    qed
  next
    case ScheduleRemainder
    with Some have n: "next_action mem = Some ScheduleRemainder" by simp
    then obtain plan where p: "payment_plan mem = Some plan"
      using next_action_plan [of mem] by auto
    show ?thesis
    proof (cases "float_overflow (scheduled_cents plan)")
      case True
      with n p show ?thesis
        by (auto simp add: iteration_schedule_overflow amount_overflows_cases)
    next
      case False
      from iteration_schedule [OF n p False] n p False show ?thesis
        by (simp add: amount_overflows_cases)
    qed
  qed
qed

lemma iteration_no_attribute_error: "iteration env step mem \<noteq> Raised AttributeError mem'"
  using iteration_raises [of env step mem AttributeError] by blast

lemma iteration_breaks:
  "(\<exists>mem'. iteration env step mem = Break mem') \<longleftrightarrow>
       next_action mem = None
     \<or> (next_action mem = Some ValidateInvoice
          \<and> \<not> fst (tool_validate_invoice (today env step) mem))
     \<or> (next_action mem = Some RunKyc \<and> \<not> fst (tool_run_kyc (vendor_id (invoice mem))))
     \<or> (next_action mem = Some RunAml
          \<and> \<not> fst (tool_run_aml_screening (vendor_id (invoice mem))))"
proof (cases "next_action mem")
  case None
  then show ?thesis by (simp add: iteration_done)
next
  case (Some a)
  show ?thesis
  proof (cases a)
    case ExecuteImmediate
    with Some have n: "next_action mem = Some ExecuteImmediate" by simp
    then obtain plan where p: "payment_plan mem = Some plan"
      using next_action_plan [of mem] by auto
    show ?thesis
    proof (cases "float_overflow (immediate_cents plan)")
      case True
      with n p show ?thesis by (simp add: iteration_execute_overflow)
    next
      case False
      from tool_execute_payment_returns [OF False] obtain ok msg txn acct'
        where "tool_execute_payment env (uuid4 env step) (account mem) (immediate_cents plan)
                 (PaymentPlan.currency plan) = Inr (ok, msg, txn, acct')"
        by blast
      from iteration_execute [OF n p this False] n show ?thesis by simp
    qed
  next
    case ScheduleRemainder
    with Some have n: "next_action mem = Some ScheduleRemainder" by simp
    then obtain plan where p: "payment_plan mem = Some plan"
      using next_action_plan [of mem] by auto
    show ?thesis
    proof (cases "float_overflow (scheduled_cents plan)")
      case True
      with n p show ?thesis by (simp add: iteration_schedule_overflow)
    next
      case False
      from iteration_schedule [OF n p False] n show ?thesis by simp
    qed
  qed (simp_all add: Some iteration_validate iteration_kyc iteration_aml iteration_propose)
qed

lemma iteration_lines:
  assumes "next_action mem = Some a" and "\<not> amount_overflows mem"
  shows "\<exists>mem'. (iteration env step mem = Continue mem' \<or> iteration env step mem = Break mem')
           \<and> audit_log mem' = audit_log mem @ audit_lines env step mem a"
proof (cases a)
  case ValidateInvoice
  with assms show ?thesis by (simp add: iteration_validate)
next
  case RunKyc
  with assms show ?thesis by (simp add: iteration_kyc)
next
  case RunAml
  with assms show ?thesis by (simp add: iteration_aml)
next
  case ProposePlan
  with assms show ?thesis by (simp add: iteration_propose)
next
  case ExecuteImmediate
  with assms have n: "next_action mem = Some ExecuteImmediate" by simp
  then obtain plan where p: "payment_plan mem = Some plan"
    using next_action_plan [of mem] by auto
  with assms(2) n have r: "\<not> float_overflow (immediate_cents plan)"
    by (simp add: amount_overflows_cases)
  from tool_execute_payment_returns [OF r] obtain ok msg txn acct'
    where "tool_execute_payment env (uuid4 env step) (account mem) (immediate_cents plan)
             (PaymentPlan.currency plan) = Inr (ok, msg, txn, acct')"
    by blast
  from iteration_execute [OF n p this r] ExecuteImmediate show ?thesis by simp
next
  case ScheduleRemainder
  with assms have n: "next_action mem = Some ScheduleRemainder" by simp
  then obtain plan where p: "payment_plan mem = Some plan"
    using next_action_plan [of mem] by auto
  with assms(2) n have r: "\<not> float_overflow (scheduled_cents plan)"
    by (simp add: amount_overflows_cases)
  from iteration_schedule [OF n p r] ScheduleRemainder show ?thesis by simp
qed

subsection \<open>The planner after an iteration\<close>

lemma validated_append:
  "validated (mem\<lparr>audit_log := audit_log mem @ ls\<rparr>)
     = (validated mem \<or> list_ex (\<lambda>line. sublist ''Invoice validated.'' line) ls)"
  by (simp add: validated_def list_ex_iff) blast

lemma validated_upd [simp]:
  "validated (mem\<lparr>vendor_kyc_ok := k\<rparr>) = validated mem"
  "validated (mem\<lparr>vendor_aml_ok := a\<rparr>) = validated mem"
  "validated (mem\<lparr>payment_plan := p\<rparr>) = validated mem"
  "validated (mem\<lparr>account := acct\<rparr>) = validated mem"
  "validated (mem\<lparr>executed_amount_cents := x\<rparr>) = validated mem"
  "validated (mem\<lparr>scheduled := b\<rparr>) = validated mem"
  by (simp_all add: validated_def)

lemma next_action_append_validated:
  "validated mem \<Longrightarrow>
     next_action (mem\<lparr>audit_log := audit_log mem @ ls\<rparr>) = next_action mem"
  by (cases "payment_plan mem") (simp_all add: next_action_def validated_append)

lemma next_action_validated:
  "next_action mem \<noteq> Some ValidateInvoice \<Longrightarrow> validated mem"
  by (auto simp add: next_action_def split: if_splits)

lemma iteration_execute_failed:
  assumes "next_action mem = Some ExecuteImmediate" and "payment_plan mem = Some plan"
    and "tool_execute_payment env (uuid4 env step) (account mem) (immediate_cents plan)
           (PaymentPlan.currency plan) = Inr (False, msg, txn, acct')"
    and "\<not> float_overflow (immediate_cents plan)"
  shows "iteration env step mem
           = Continue (mem\<lparr>audit_log := audit_log mem
                                @ audit_lines env step mem ExecuteImmediate\<rparr>)"
    and "next_action (mem\<lparr>audit_log := audit_log mem
                                @ audit_lines env step mem ExecuteImmediate\<rparr>)
           = Some ExecuteImmediate"
proof -
  from assms(3) have "acct' = account mem" by (simp add: tool_execute_payment_fails)
  with iteration_execute [OF assms]
  show "iteration env step mem
           = Continue (mem\<lparr>audit_log := audit_log mem
                                @ audit_lines env step mem ExecuteImmediate\<rparr>)"
    by simp
  have v: "validated mem"
    using assms(1) by (simp add: next_action_validated)
  show "next_action (mem\<lparr>audit_log := audit_log mem
                                @ audit_lines env step mem ExecuteImmediate\<rparr>)
           = Some ExecuteImmediate"
    using assms(1) v by (simp add: next_action_append_validated)
qed

subsection \<open>The loop\<close>

lemma run_loop_continue:
  "iteration env (Suc k) mem = Continue mem' \<Longrightarrow> run_loop env k mem = run_loop env (Suc k) mem'"
  by (subst run_loop.simps) simp

lemma run_loop_break:
  "iteration env (Suc k) mem = Break mem' \<Longrightarrow> run_loop env k mem = Some (Suc k, Inr mem')"
  by (subst run_loop.simps) simp

lemma run_loop_raised:
  "iteration env (Suc k) mem = Raised e mem'
     \<Longrightarrow> run_loop env k mem = Some (Suc k, Inl (e, mem'))"
  by (subst run_loop.simps) simp

lemma run_loop_counts:
  assumes "run_loop env step mem = Some y"
  shows "step < fst y"
proof (rule run_loop.raw_induct [where P = "\<lambda>env step mem y. step < fst y", OF _ assms])
  fix loop :: "Env \<Rightarrow> nat \<Rightarrow> Memory \<Rightarrow> (nat \<times> ((exn \<times> Memory) + Memory)) option"
    and env step mem y
  assume IH: "\<And>env step mem y. loop env step mem = Some y \<Longrightarrow> step < fst y"
    and body: "(let step = step + 1
                in case iteration env step mem of
                     Continue mem' \<Rightarrow> loop env step mem'
                   | Break mem' \<Rightarrow> Some (step, Inr mem')
                   | Raised e mem' \<Rightarrow> Some (step, Inl (e, mem'))) = Some y"
  show "step < fst y"
  proof (cases "iteration env (step + 1) mem")
    case (Continue mem')
    with body have "loop env (step + 1) mem' = Some y" by (simp add: Let_def)
    from IH [OF this] show ?thesis by simp
  next
    case (Break mem')
    with body show ?thesis by (auto simp add: Let_def)
  next
    case (Raised e mem')
    with body show ?thesis by (auto simp add: Let_def)
  qed
qed

lemma run_loop_leaves_now:
  "run_loop env k mem = Some (Suc k, r) \<longleftrightarrow>
     (\<exists>mem'. iteration env (Suc k) mem = Break mem' \<and> r = Inr mem')
     \<or> (\<exists>e mem'. iteration env (Suc k) mem = Raised e mem' \<and> r = Inl (e, mem'))"
proof (cases "iteration env (Suc k) mem")
  case (Continue mem')
  have "run_loop env (Suc k) mem' \<noteq> Some (Suc k, r)"
    using run_loop_counts [of env "Suc k" mem' "(Suc k, r)"] by auto
  with Continue run_loop_continue [OF Continue] show ?thesis by simp
next
  case (Break mem')
  with run_loop_break [OF Break] show ?thesis by auto
next
  case (Raised e mem')
  with run_loop_raised [OF Raised] show ?thesis by auto
qed

lemma stuck_step:
  assumes "stuck mem"
  shows "\<exists>mem'. iteration env step mem = Continue mem' \<and> stuck mem'"
proof -
  from assms obtain plan where p: "payment_plan mem = Some plan"
    and n: "next_action mem = Some ExecuteImmediate"
    and b: "0 < immediate_cents plan" "balance_cents (account mem) < immediate_cents plan"
    and r: "\<not> float_overflow (immediate_cents plan)"
    by (auto simp add: stuck_def split: option.splits)
  have f: "tool_execute_payment env (uuid4 env step) (account mem) (immediate_cents plan)
             (PaymentPlan.currency plan)
           = Inr (False, ''Execution failed: insufficient funds.'', '''', account mem)"
    using b by (simp add: tool_execute_payment_result)
  let ?m = "mem\<lparr>audit_log := audit_log mem @ audit_lines env step mem ExecuteImmediate\<rparr>"
  have "iteration env step mem = Continue ?m" by (rule iteration_execute_failed(1) [OF n p f r])
  moreover have "stuck ?m"
    using iteration_execute_failed(2) [OF n p f r] p b r by (simp add: stuck_def)
  ultimately show ?thesis by blast
qed

lemma run_loop_not_stuck:
  assumes "run_loop env step mem = Some y"
  shows "\<not> stuck mem"
proof (rule run_loop.raw_induct [where P = "\<lambda>env step mem y. \<not> stuck mem", OF _ assms])
  fix loop :: "Env \<Rightarrow> nat \<Rightarrow> Memory \<Rightarrow> (nat \<times> ((exn \<times> Memory) + Memory)) option"
    and env step mem y
  assume IH: "\<And>env step mem y. loop env step mem = Some y \<Longrightarrow> \<not> stuck mem"
    and body: "(let step = step + 1
                in case iteration env step mem of
                     Continue mem' \<Rightarrow> loop env step mem'
                   | Break mem' \<Rightarrow> Some (step, Inr mem')
                   | Raised e mem' \<Rightarrow> Some (step, Inl (e, mem'))) = Some y"
  show "\<not> stuck mem"
  proof
    assume "stuck mem"
    then obtain mem' where "iteration env (step + 1) mem = Continue mem'" "stuck mem'"
      using stuck_step by blast
    with body have "loop env (step + 1) mem' = Some y" by (simp add: Let_def)
    with IH \<open>stuck mem'\<close> show False by blast
  qed
qed

lemma stuck_never_returns: "stuck mem \<Longrightarrow> run_loop env step mem = None"
  using run_loop_not_stuck [of env step mem] by (cases "run_loop env step mem") auto

subsection \<open>The concrete memories\<close>

lemma validated_done: "validated done_memory"
  by (simp add: validated_def done_memory_def sublist_code)

lemma validated_unfunded: "validated unfunded_memory"
  by (simp add: validated_def unfunded_memory_def done_memory_def sublist_code)

lemma next_action_unfunded: "next_action unfunded_memory = Some ExecuteImmediate"
  by (simp add: next_action_def validated_unfunded)
     (simp add: unfunded_memory_def done_memory_def demo_plan_def)

lemma next_action_done: "next_action done_memory = None"
  by (simp add: next_action_def validated_done)
     (simp add: done_memory_def demo_plan_def)

lemma payment_plan_unfunded: "payment_plan unfunded_memory = Some demo_plan"
  by (simp add: unfunded_memory_def done_memory_def)

lemma demo_plan_renders:
  "\<not> float_overflow (immediate_cents demo_plan)"
  "\<not> float_overflow (scheduled_cents demo_plan)"
  by (simp_all add: demo_plan_def float_overflow_small)

lemma not_overflows_unfunded: "\<not> amount_overflows unfunded_memory"
  by (simp add: amount_overflows_cases payment_plan_unfunded demo_plan_renders)

lemma not_overflows_done: "\<not> amount_overflows done_memory"
  by (simp add: amount_overflows_cases next_action_done)

lemma stuck_unfunded: "stuck unfunded_memory"
  by (simp add: stuck_def next_action_unfunded payment_plan_unfunded demo_plan_renders)
     (simp add: unfunded_memory_def done_memory_def demo_plan_def demo_account_def)

lemma tool_execute_payment_unfunded:
  "tool_execute_payment demo_env (uuid4 demo_env 5) (account unfunded_memory)
     (immediate_cents demo_plan) (PaymentPlan.currency demo_plan)
   = Inr (False, ''Execution failed: insufficient funds.'', '''', account unfunded_memory)"
  by (rule tool_execute_payment_result(2))
     (simp_all add: unfunded_memory_def done_memory_def demo_plan_def demo_account_def)

lemma huge_cents_facts: "0 < huge_cents" "float_overflow huge_cents"
  by (simp_all add: huge_cents_def float_overflow_def float_limit_cents_def)

lemma validated_huge: "validated huge_memory"
  by (simp add: huge_memory_def validated_unfunded)

lemma payment_plan_huge: "payment_plan huge_memory = Some huge_plan"
  by (simp add: huge_memory_def)

lemma next_action_huge: "next_action huge_memory = Some ExecuteImmediate"
  by (simp add: next_action_def validated_huge payment_plan_huge)
     (simp add: huge_memory_def unfunded_memory_def done_memory_def huge_plan_def
        huge_cents_facts)

lemma huge_plan_overflows: "float_overflow (immediate_cents huge_plan)"
  by (simp add: huge_plan_def huge_cents_facts)

lemma tool_execute_payment_huge:
  "tool_execute_payment demo_env (uuid4 demo_env 5) (account huge_memory)
     (immediate_cents huge_plan) (PaymentPlan.currency huge_plan)
   = Inr (False, ''Execution failed: insufficient funds.'', '''', account huge_memory)"
  by (rule tool_execute_payment_result(2))
     (simp_all add: huge_memory_def unfunded_memory_def done_memory_def huge_plan_def
        demo_account_def huge_cents_facts)

lemma iteration_huge:
  "iteration demo_env 5 huge_memory
     = Raised OverflowError
         (huge_memory\<lparr>audit_log := audit_log huge_memory @
            [''2026-11-04T09:00:00 | Thought 5: Deciding to 'execute_immediate'.'']\<rparr>)"
proof -
  have b: "\<not> immediate_cents huge_plan \<le> balance_cents (account huge_memory)"
    using huge_cents_facts(1)
    by (simp add: huge_memory_def unfunded_memory_def done_memory_def huge_plan_def
          demo_account_def)
  have t: "now demo_env 5 0 @ '' | '' @ thought 5 ExecuteImmediate
             = ''2026-11-04T09:00:00 | Thought 5: Deciding to 'execute_immediate'.''"
    by (simp add: demo_env_def thought_def show_nat.simps digit_def)
  from iteration_execute_overflow [OF next_action_huge payment_plan_huge huge_plan_overflows,
      of demo_env 5] b t
  show ?thesis by simp
qed

section \<open>Properties of the planner\<close>


text \<open>
  C10. Whenever the planner answers execute_immediate or schedule_remainder the memory
  holds a plan, so no iteration of the loop ends in the \<^verbatim>\<open>AttributeError\<close> that reading
  a field of a missing plan would raise, whatever the memory it would leave.
\<close>

theorem plan_present_when_dispatched:
  "(next_action mem = Some ExecuteImmediate \<or> next_action mem = Some ScheduleRemainder
      \<longrightarrow> payment_plan mem \<noteq> None)
   \<and> iteration env step mem \<noteq> Raised AttributeError mem'"
proof
  show "next_action mem = Some ExecuteImmediate \<or> next_action mem = Some ScheduleRemainder
      \<longrightarrow> payment_plan mem \<noteq> None"
    using next_action_plan [of mem] by auto
next
  show "iteration env step mem \<noteq> Raised AttributeError mem'"
    by (rule iteration_no_attribute_error)
qed

theorem plan_present_when_dispatched_witness:
  "next_action unfunded_memory = Some ExecuteImmediate
   \<and> payment_plan unfunded_memory \<noteq> None
   \<and> iteration demo_env 5 unfunded_memory \<noteq> Raised AttributeError unfunded_memory"
  using plan_present_when_dispatched [of unfunded_memory demo_env 5 unfunded_memory]
    next_action_unfunded
  by simp

section \<open>Properties of the tools\<close>

text \<open>
  C6. \<^verbatim>\<open>tool_validate_invoice\<close> fails with the invalid-amount message exactly when the
  amount is not positive; failing that, with the unsupported-currency message exactly when
  the currency is none of USD, EUR, GBP; failing that, with the too-old message exactly
  when the due date is more than 30 days before today; otherwise it succeeds. Each
  message is given both in full (the code ends it with a period and names the currency)
  and by the words it starts with. It returns
  a flag and a message only, and the loop's validate branch changes nothing in the memory
  but the audit log, to which it appends its Action and Observation lines.
\<close>

theorem tool_validate_invoice_cases:
  "(let iv = invoice mem;
        supported = Invoice.currency iv \<in> {''USD'', ''EUR'', ''GBP''};
        stale = due_date iv < t - 30;
        r = tool_validate_invoice t mem
    in (r = (False, ''Invalid invoice amount.'') \<longleftrightarrow> amount iv \<le> 0)
     \<and> (r = (False, ''Unsupported currency '' @ Invoice.currency iv @ ''.'')
          \<longleftrightarrow> 0 < amount iv \<and> \<not> supported)
     \<and> (r = (False, ''Invoice is too old.'') \<longleftrightarrow> 0 < amount iv \<and> supported \<and> stale)
     \<and> (r = (True, ''Invoice validated.'') \<longleftrightarrow> 0 < amount iv \<and> supported \<and> \<not> stale)
     \<and> (fst r \<longleftrightarrow> 0 < amount iv \<and> supported \<and> \<not> stale)
     \<and> (\<not> fst r \<and> prefix ''Invalid invoice amount'' (snd r) \<longleftrightarrow> amount iv \<le> 0)
     \<and> (\<not> fst r \<and> prefix ''Unsupported currency'' (snd r)
          \<longleftrightarrow> 0 < amount iv \<and> \<not> supported)
     \<and> (\<not> fst r \<and> prefix ''Invoice is too old'' (snd r)
          \<longleftrightarrow> 0 < amount iv \<and> supported \<and> stale))
   \<and> do_validate_invoice env step mem
       = (if fst (tool_validate_invoice (today env step) mem) then Continue else Break)
           (mem\<lparr>audit_log := audit_log mem @
              [now env step 1 @ '' | '' @ ''Action '' @ show_nat step @ '': validate_invoice()'',
               now env step 2 @ '' | '' @ ''Observation '' @ show_nat step @ '': ''
                 @ snd (tool_validate_invoice (today env step) mem)]\<rparr>)"
proof -
  have "do_validate_invoice env step mem
       = (if fst (tool_validate_invoice (today env step) mem) then Continue else Break)
           (mem\<lparr>audit_log := audit_log mem @
              [now env step 1 @ '' | '' @ ''Action '' @ show_nat step @ '': validate_invoice()'',
               now env step 2 @ '' | '' @ ''Observation '' @ show_nat step @ '': ''
                 @ snd (tool_validate_invoice (today env step) mem)]\<rparr>)"
    by (cases "tool_validate_invoice (today env step) mem")
       (simp add: do_validate_invoice_def log_def)
  moreover have "let iv = invoice mem;
        supported = Invoice.currency iv \<in> {''USD'', ''EUR'', ''GBP''};
        stale = due_date iv < t - 30;
        r = tool_validate_invoice t mem
    in (r = (False, ''Invalid invoice amount.'') \<longleftrightarrow> amount iv \<le> 0)
     \<and> (r = (False, ''Unsupported currency '' @ Invoice.currency iv @ ''.'')
          \<longleftrightarrow> 0 < amount iv \<and> \<not> supported)
     \<and> (r = (False, ''Invoice is too old.'') \<longleftrightarrow> 0 < amount iv \<and> supported \<and> stale)
     \<and> (r = (True, ''Invoice validated.'') \<longleftrightarrow> 0 < amount iv \<and> supported \<and> \<not> stale)
     \<and> (fst r \<longleftrightarrow> 0 < amount iv \<and> supported \<and> \<not> stale)
     \<and> (\<not> fst r \<and> prefix ''Invalid invoice amount'' (snd r) \<longleftrightarrow> amount iv \<le> 0)
     \<and> (\<not> fst r \<and> prefix ''Unsupported currency'' (snd r)
          \<longleftrightarrow> 0 < amount iv \<and> \<not> supported)
     \<and> (\<not> fst r \<and> prefix ''Invoice is too old'' (snd r)
          \<longleftrightarrow> 0 < amount iv \<and> supported \<and> stale)"
    by (auto simp add: tool_validate_invoice_def Let_def)
  ultimately show ?thesis by blast
qed

text \<open>
  C8. With an amount that is zero or negative, \<^verbatim>\<open>tool_execute_payment\<close> and
  \<^verbatim>\<open>tool_schedule_payment\<close> both return success, and the account comes back from
  \<^verbatim>\<open>tool_execute_payment\<close> as it went in (\<^verbatim>\<open>tool_schedule_payment\<close> is given no account
  at all).
\<close>

theorem zero_amount_is_noop:
  "cents \<le> 0 \<Longrightarrow>
     tool_execute_payment env uuid acct cents cur
       = Inr (True, ''Nothing to execute.'', uuid, acct)
   \<and> tool_schedule_payment env uuid d cents cur = Inr (True, ''Nothing to schedule.'', uuid)"
  by (simp add: tool_execute_payment_def tool_schedule_payment_def)

theorem zero_amount_is_noop_witness:
  "(0::int) \<le> 0
   \<and> tool_execute_payment demo_env ''id-1'' demo_account 0 ''USD''
       = Inr (True, ''Nothing to execute.'', ''id-1'', demo_account)
   \<and> tool_schedule_payment demo_env ''id-1'' (Some 739925) 0 ''USD''
       = Inr (True, ''Nothing to schedule.'', ''id-1'')"
  using zero_amount_is_noop [of 0 demo_env "''id-1''" demo_account "''USD''" "Some 739925"]
  by simp

text \<open>
  C2, as the code has it. \<^verbatim>\<open>tool_propose_plan\<close> always succeeds; the plan's total is the
  invoice amount and its currency the invoice's; immediate + scheduled is the invoice
  amount; the immediate part is \<open>max 0 (min amount (min balance (limit - spent)))\<close>, so it
  is never negative, and it is at most \<open>min amount (min balance (limit - spent))\<close> whenever
  that minimum is not negative. With \<open>i = min amount (min balance (max 0 (limit - spent)))\<close>:
  for \<open>i \<le> 0\<close> everything is scheduled for today + 1; for \<open>0 < i < amount\<close> the plan is a
  split, the remainder scheduled for today + 1; otherwise it is a full payment now with
  nothing scheduled and no date. The loop's propose branch changes the plan and the audit
  log only: the account is left as it was.
\<close>

theorem tool_propose_plan_correct:
  "(let iv = invoice mem;
        acct = account mem;
        room = min (amount iv)
                 (min (balance_cents acct) (daily_limit_cents acct - spent_today_cents acct));
        i = min (amount iv)
              (min (balance_cents acct)
                 (max 0 (daily_limit_cents acct - spent_today_cents acct)));
        r = tool_propose_plan t mem;
        plan = snd (snd r)
    in fst r
     \<and> total_cents plan = amount iv
     \<and> PaymentPlan.currency plan = Invoice.currency iv
     \<and> immediate_cents plan + scheduled_cents plan = amount iv
     \<and> 0 \<le> immediate_cents plan
     \<and> immediate_cents plan = max 0 room
     \<and> (0 \<le> room \<longrightarrow> immediate_cents plan \<le> room)
     \<and> (i \<le> 0 \<longrightarrow>
          r = (True, ''Proposed full scheduling for tomorrow.'',
               \<lparr>total_cents = amount iv, currency = Invoice.currency iv, immediate_cents = 0,
                scheduled_cents = amount iv, scheduled_date = Some (t + 1)\<rparr>))
     \<and> (0 < i \<and> i < amount iv \<longrightarrow>
          r = (True, ''Proposed split: partial now, remainder tomorrow.'',
               \<lparr>total_cents = amount iv, currency = Invoice.currency iv, immediate_cents = i,
                scheduled_cents = amount iv - i, scheduled_date = Some (t + 1)\<rparr>))
     \<and> (0 < i \<and> \<not> i < amount iv \<longrightarrow>
          r = (True, ''Proposed full payment now.'',
               \<lparr>total_cents = amount iv, currency = Invoice.currency iv,
                immediate_cents = amount iv, scheduled_cents = 0, scheduled_date = None\<rparr>)))
   \<and> do_propose_plan env step mem
       = Continue
           (mem\<lparr>payment_plan := Some (snd (snd (tool_propose_plan (today env step) mem))),
                audit_log := audit_log mem @
                  [now env step 1 @ '' | '' @ ''Action '' @ show_nat step @ '': propose_plan()'',
                   now env step 2 @ '' | '' @ ''Observation '' @ show_nat step @ '': ''
                     @ fst (snd (tool_propose_plan (today env step) mem))]\<rparr>)"
proof
  show "let iv = invoice mem;
        acct = account mem;
        room = min (amount iv)
                 (min (balance_cents acct) (daily_limit_cents acct - spent_today_cents acct));
        i = min (amount iv)
              (min (balance_cents acct)
                 (max 0 (daily_limit_cents acct - spent_today_cents acct)));
        r = tool_propose_plan t mem;
        plan = snd (snd r)
    in fst r
     \<and> total_cents plan = amount iv
     \<and> PaymentPlan.currency plan = Invoice.currency iv
     \<and> immediate_cents plan + scheduled_cents plan = amount iv
     \<and> 0 \<le> immediate_cents plan
     \<and> immediate_cents plan = max 0 room
     \<and> (0 \<le> room \<longrightarrow> immediate_cents plan \<le> room)
     \<and> (i \<le> 0 \<longrightarrow>
          r = (True, ''Proposed full scheduling for tomorrow.'',
               \<lparr>total_cents = amount iv, currency = Invoice.currency iv, immediate_cents = 0,
                scheduled_cents = amount iv, scheduled_date = Some (t + 1)\<rparr>))
     \<and> (0 < i \<and> i < amount iv \<longrightarrow>
          r = (True, ''Proposed split: partial now, remainder tomorrow.'',
               \<lparr>total_cents = amount iv, currency = Invoice.currency iv, immediate_cents = i,
                scheduled_cents = amount iv - i, scheduled_date = Some (t + 1)\<rparr>))
     \<and> (0 < i \<and> \<not> i < amount iv \<longrightarrow>
          r = (True, ''Proposed full payment now.'',
               \<lparr>total_cents = amount iv, currency = Invoice.currency iv,
                immediate_cents = amount iv, scheduled_cents = 0, scheduled_date = None\<rparr>))"
    unfolding tool_propose_plan_def Let_def
    by (simp add: min_def max_def)
next
  have ok: "fst (tool_propose_plan (today env step) mem)"
    unfolding tool_propose_plan_def Let_def by simp
  show "do_propose_plan env step mem
       = Continue
           (mem\<lparr>payment_plan := Some (snd (snd (tool_propose_plan (today env step) mem))),
                audit_log := audit_log mem @
                  [now env step 1 @ '' | '' @ ''Action '' @ show_nat step @ '': propose_plan()'',
                   now env step 2 @ '' | '' @ ''Observation '' @ show_nat step @ '': ''
                     @ fst (snd (tool_propose_plan (today env step) mem))]\<rparr>)"
    using ok by (simp add: do_propose_plan_def split_def log_def Let_def)
qed

theorem tool_propose_plan_correct_witness:
  "(0::int) < 18000 \<and> (18000::int) < amount demo_invoice
   \<and> tool_propose_plan 739924 (fresh_memory demo_invoice demo_account)
       = (True, ''Proposed split: partial now, remainder tomorrow.'', demo_plan)"
proof -
  let ?mem = "fresh_memory demo_invoice demo_account"
  have i: "min (amount (invoice ?mem))
             (min (balance_cents (account ?mem))
                (max 0 (daily_limit_cents (account ?mem) - spent_today_cents (account ?mem))))
           = 18000"
    by (simp add: fresh_memory_def demo_invoice_def demo_account_def)
  have h: "(0::int) < 18000 \<and> (18000::int) < amount (invoice ?mem)"
    by (simp add: fresh_memory_def demo_invoice_def)
  have "tool_propose_plan 739924 ?mem
       = (True, ''Proposed split: partial now, remainder tomorrow.'',
          \<lparr>total_cents = amount (invoice ?mem), currency = Invoice.currency (invoice ?mem),
           immediate_cents = 18000, scheduled_cents = amount (invoice ?mem) - 18000,
           scheduled_date = Some (739924 + 1)\<rparr>)"
    using tool_propose_plan_correct [of ?mem 739924 demo_env 4] h
    unfolding Let_def i by blast
  then show ?thesis
    by (simp add: fresh_memory_def demo_invoice_def demo_plan_def)
qed

text \<open>
  C2 as stated fails: with more spent today than the daily limit allows, the immediate
  part is 0 while \<open>min amount (min balance (limit - spent))\<close> is negative.
\<close>

theorem propose_plan_bound_counterexample:
  "\<not> immediate_cents (snd (snd (tool_propose_plan 739924
          (fresh_memory demo_invoice overspent_account))))
      \<le> min (amount demo_invoice)
           (min (balance_cents overspent_account)
              (daily_limit_cents overspent_account - spent_today_cents overspent_account))"
  by (simp add: tool_propose_plan_def fresh_memory_def demo_invoice_def overspent_account_def)


text \<open>
  C3, as the code has it. For an amount \<open>\<le> 0\<close> \<^verbatim>\<open>tool_execute_payment\<close> succeeds and
  changes nothing; for a positive amount above the balance it fails with the
  insufficient-funds message, an empty identifier and the account unchanged; otherwise,
  for an amount within the range of a float, it succeeds with the generated identifier,
  the balance goes down and spent-today goes up by exactly the amount, and the balance
  stays \<open>\<ge> 0\<close>. Spent-today is \<open>\<ge> 0\<close> afterwards exactly when it was \<open>\<ge> - amount\<close> before,
  and within the daily limit afterwards exactly when spent-today + amount was within it
  before: the function checks no limit.
\<close>

theorem tool_execute_payment_cases:
  "(cents \<le> 0 \<longrightarrow>
      tool_execute_payment env uuid acct cents cur
        = Inr (True, ''Nothing to execute.'', uuid, acct))
   \<and> (0 < cents \<and> balance_cents acct < cents \<longrightarrow>
        tool_execute_payment env uuid acct cents cur
          = Inr (False, ''Execution failed: insufficient funds.'', '''', acct))
   \<and> (0 < cents \<and> cents \<le> balance_cents acct \<and> \<not> float_overflow cents \<longrightarrow>
        (let acct' = acct\<lparr>balance_cents := balance_cents acct - cents,
                          spent_today_cents := spent_today_cents acct + cents\<rparr>
         in tool_execute_payment env uuid acct cents cur
              = Inr (True, ''Executed '' @ fmt_cents env cents @ '' '' @ cur @ ''.'', uuid, acct')
          \<and> balance_cents acct' = balance_cents acct - cents
          \<and> balance_cents acct' < balance_cents acct
          \<and> spent_today_cents acct' = spent_today_cents acct + cents
          \<and> spent_today_cents acct < spent_today_cents acct'
          \<and> 0 \<le> balance_cents acct'
          \<and> (0 \<le> spent_today_cents acct' \<longleftrightarrow> - cents \<le> spent_today_cents acct)
          \<and> (spent_today_cents acct' \<le> daily_limit_cents acct'
               \<longleftrightarrow> spent_today_cents acct + cents \<le> daily_limit_cents acct)))"
  by (auto simp add: tool_execute_payment_def render_cents_def Let_def)

theorem tool_execute_payment_cases_witness:
  "(0::int) < 18000 \<and> 18000 \<le> balance_cents demo_account \<and> \<not> float_overflow 18000
   \<and> tool_execute_payment demo_env ''id-1'' demo_account 18000 ''USD''
       = Inr (True, ''Executed 180.00 USD.'', ''id-1'',
              demo_account\<lparr>balance_cents := 0, spent_today_cents := 18000\<rparr>)"
proof -
  have h: "(0::int) < 18000 \<and> 18000 \<le> balance_cents demo_account \<and> \<not> float_overflow 18000"
    by (simp add: demo_account_def float_overflow_small)
  have r: "tool_execute_payment demo_env ''id-1'' demo_account 18000 ''USD''
       = Inr (True, ''Executed '' @ fmt_cents demo_env 18000 @ '' '' @ ''USD'' @ ''.'', ''id-1'',
              demo_account\<lparr>balance_cents := balance_cents demo_account - 18000,
                           spent_today_cents := spent_today_cents demo_account + 18000\<rparr>)"
    using tool_execute_payment_cases [of 18000 demo_env "''id-1''" demo_account "''USD''"] h
    unfolding Let_def by blast
  have f: "fmt_cents demo_env 18000 = ''180.00''"
    by (simp add: demo_env_def decimal_cents_def digit_def show_nat.simps)
  have a: "demo_account\<lparr>balance_cents := balance_cents demo_account - 18000,
                       spent_today_cents := spent_today_cents demo_account + 18000\<rparr>
       = demo_account\<lparr>balance_cents := 0, spent_today_cents := 18000\<rparr>"
    by (simp add: demo_account_def)
  show ?thesis using h r f a by simp
qed

text \<open>
  C3 as stated fails: a payment of 500 from a balance of 1000 succeeds although the daily
  limit is 100, and leaves spent-today (500) above the limit.
\<close>

theorem execute_payment_limit_counterexample:
  "tool_execute_payment demo_env ''id-1'' small_limit_account 500 ''USD''
     = Inr (True, ''Executed 5.00 USD.'', ''id-1'',
            small_limit_account\<lparr>balance_cents := 500, spent_today_cents := 500\<rparr>)
   \<and> \<not> spent_today_cents (small_limit_account\<lparr>balance_cents := 500, spent_today_cents := 500\<rparr>)
        \<le> daily_limit_cents
            (small_limit_account\<lparr>balance_cents := 500, spent_today_cents := 500\<rparr>)"
proof -
  have f: "fmt_cents demo_env 500 = ''5.00''"
    by (simp add: demo_env_def decimal_cents_def digit_def show_nat.simps)
  have r: "\<not> float_overflow 500" by (simp add: float_overflow_small)
  have "tool_execute_payment demo_env ''id-1'' small_limit_account 500 ''USD''
     = Inr (True, ''Executed '' @ fmt_cents demo_env 500 @ '' '' @ ''USD'' @ ''.'', ''id-1'',
            small_limit_account\<lparr>balance_cents := balance_cents small_limit_account - 500,
              spent_today_cents := spent_today_cents small_limit_account + 500\<rparr>)"
    by (rule tool_execute_payment_result(3)) (simp_all add: r small_limit_account_def)
  then show ?thesis
    by (simp add: f) (simp add: small_limit_account_def)
qed

section \<open>Properties of the orchestrator loop\<close>

text \<open>
  C7, as the code has it. An iteration in which the planner names an action, and in which
  no amount beyond the range of a float has to be rendered, appends exactly three lines to
  the audit log, in order: the Thought naming the action, the Action naming the call with
  its arguments, and the Observation with the handler's message and produced identifier;
  the log before the iteration is a prefix of the log after it. The final iteration, in
  which the planner answers done, appends exactly one line, the Thought \<^verbatim>\<open>Done.\<close>, and
  breaks.
\<close>

theorem iteration_audit_lines:
  "(next_action mem = None \<longrightarrow>
      iteration env step mem
        = Break (mem\<lparr>audit_log := audit_log mem @
                   [now env step 0 @ '' | '' @ ''Thought '' @ show_nat step @ '': Done.'']\<rparr>))
   \<and> (next_action mem = Some a \<and> \<not> amount_overflows mem \<longrightarrow>
        (\<exists>mem'. (iteration env step mem = Continue mem' \<or> iteration env step mem = Break mem')
           \<and> audit_log mem' = audit_log mem @ audit_lines env step mem a
           \<and> length (audit_log mem') = length (audit_log mem) + 3
           \<and> prefix (audit_log mem) (audit_log mem')))"
proof (intro conjI impI)
  assume "next_action mem = None"
  then show "iteration env step mem
        = Break (mem\<lparr>audit_log := audit_log mem @
                   [now env step 0 @ '' | '' @ ''Thought '' @ show_nat step @ '': Done.'']\<rparr>)"
    by (rule iteration_done)
next
  assume a: "next_action mem = Some a \<and> \<not> amount_overflows mem"
  then have "next_action mem = Some a" and "\<not> amount_overflows mem" by simp_all
  from iteration_lines [OF this, of env step] obtain mem'
    where m: "iteration env step mem = Continue mem' \<or> iteration env step mem = Break mem'"
      and l: "audit_log mem' = audit_log mem @ audit_lines env step mem a"
    by blast
  have "length (audit_log mem') = length (audit_log mem) + 3"
    using l by (simp add: audit_lines_def)
  moreover have "prefix (audit_log mem) (audit_log mem')"
    using l by simp
  ultimately show "\<exists>mem'. (iteration env step mem = Continue mem' \<or> iteration env step mem = Break mem')
           \<and> audit_log mem' = audit_log mem @ audit_lines env step mem a
           \<and> length (audit_log mem') = length (audit_log mem) + 3
           \<and> prefix (audit_log mem) (audit_log mem')"
    using m l by blast
qed

theorem iteration_audit_lines_witness:
  "next_action done_memory = None
   \<and> iteration demo_env 7 done_memory
       = Break (done_memory\<lparr>audit_log := audit_log done_memory @
                  [now demo_env 7 0 @ '' | '' @ ''Thought '' @ show_nat 7 @ '': Done.'']\<rparr>)
   \<and> next_action unfunded_memory = Some ExecuteImmediate
   \<and> \<not> amount_overflows unfunded_memory
   \<and> (\<exists>mem'. (iteration demo_env 5 unfunded_memory = Continue mem'
              \<or> iteration demo_env 5 unfunded_memory = Break mem')
          \<and> audit_log mem'
              = audit_log unfunded_memory
                  @ audit_lines demo_env 5 unfunded_memory ExecuteImmediate
          \<and> length (audit_log mem') = length (audit_log unfunded_memory) + 3
          \<and> prefix (audit_log unfunded_memory) (audit_log mem'))"
  using iteration_audit_lines [of done_memory demo_env 7 ExecuteImmediate]
    iteration_audit_lines [of unfunded_memory demo_env 5 ExecuteImmediate]
    next_action_done next_action_unfunded not_overflows_unfunded
  by simp

text \<open>
  C7 as stated fails: the iteration in which the planner answers done appends one line,
  not three.
\<close>

theorem done_iteration_counterexample:
  "iteration demo_env 7 done_memory
     = Break (done_memory\<lparr>audit_log := audit_log done_memory
                @ [''2026-11-04T09:00:00 | Thought 7: Done.'']\<rparr>)
   \<and> length (audit_log (done_memory\<lparr>audit_log := audit_log done_memory
                @ [''2026-11-04T09:00:00 | Thought 7: Done.'']\<rparr>))
       \<noteq> length (audit_log done_memory) + 3"
  using iteration_done [OF next_action_done, of demo_env 7]
  by (simp add: demo_env_def show_nat.simps digit_def)

text \<open>
  C4, as the code has it. \<open>run_loop env k mem\<close> is the loop about to make iteration
  \<open>k + 1\<close> on \<open>mem\<close>. It leaves by \<^verbatim>\<open>break\<close> in that iteration exactly when the planner
  answers done, or validation, KYC or AML was dispatched and failed; it leaves by an
  exception in that iteration exactly when a payment branch has to render an amount
  beyond the range of a float, and the exception is \<^verbatim>\<open>OverflowError\<close>; in every other case
  it goes round again. A failed \<^verbatim>\<open>execute_immediate\<close> whose amount is within the range of
  a float goes round again with nothing changed but three more audit lines, the planner
  answers \<^verbatim>\<open>execute_immediate\<close> again, and the loop never returns. \<^verbatim>\<open>tool_propose_plan\<close>
  and \<^verbatim>\<open>tool_schedule_payment\<close> never return a failure.
\<close>

theorem loop_breaks_exactly_on:
  "((\<exists>mem'. run_loop env k mem = Some (Suc k, Inr mem')) \<longleftrightarrow>
       next_action mem = None
     \<or> (next_action mem = Some ValidateInvoice
          \<and> \<not> fst (tool_validate_invoice (today env (Suc k)) mem))
     \<or> (next_action mem = Some RunKyc \<and> \<not> fst (tool_run_kyc (vendor_id (invoice mem))))
     \<or> (next_action mem = Some RunAml
          \<and> \<not> fst (tool_run_aml_screening (vendor_id (invoice mem)))))
   \<and> ((\<exists>mem'. run_loop env k mem = Some (Suc k, Inl (e, mem')))
        \<longleftrightarrow> e = OverflowError \<and> amount_overflows mem)
   \<and> ((\<exists>mem'. iteration env (Suc k) mem = Continue mem'
                \<and> run_loop env k mem = run_loop env (Suc k) mem')
        \<longleftrightarrow> \<not> (\<exists>mem'. run_loop env k mem = Some (Suc k, Inr mem'))
            \<and> \<not> amount_overflows mem)
   \<and> (next_action mem = Some ExecuteImmediate \<and> payment_plan mem = Some plan
        \<and> tool_execute_payment env (uuid4 env (Suc k)) (account mem) (immediate_cents plan)
              (PaymentPlan.currency plan) = Inr (False, msg, txn, acct')
        \<and> \<not> float_overflow (immediate_cents plan)
      \<longrightarrow> iteration env (Suc k) mem
            = Continue (mem\<lparr>audit_log := audit_log mem
                                @ audit_lines env (Suc k) mem ExecuteImmediate\<rparr>)
          \<and> next_action (mem\<lparr>audit_log := audit_log mem
                                @ audit_lines env (Suc k) mem ExecuteImmediate\<rparr>)
              = Some ExecuteImmediate
          \<and> run_loop env k mem = None)
   \<and> fst (tool_propose_plan t mem)
   \<and> tool_schedule_payment env uuid d cents cur \<noteq> Inr (False, msg', sch)"
proof -
  have brk: "(\<exists>mem'. run_loop env k mem = Some (Suc k, Inr mem'))
               \<longleftrightarrow> (\<exists>mem'. iteration env (Suc k) mem = Break mem')"
    by (simp add: run_loop_leaves_now)
  have exc: "(\<exists>mem'. run_loop env k mem = Some (Suc k, Inl (e, mem')))
               \<longleftrightarrow> (\<exists>mem'. iteration env (Suc k) mem = Raised e mem')"
    by (simp add: run_loop_leaves_now)
  have c1: "(\<exists>mem'. run_loop env k mem = Some (Suc k, Inr mem')) \<longleftrightarrow>
       next_action mem = None
     \<or> (next_action mem = Some ValidateInvoice
          \<and> \<not> fst (tool_validate_invoice (today env (Suc k)) mem))
     \<or> (next_action mem = Some RunKyc \<and> \<not> fst (tool_run_kyc (vendor_id (invoice mem))))
     \<or> (next_action mem = Some RunAml
          \<and> \<not> fst (tool_run_aml_screening (vendor_id (invoice mem))))"
    unfolding brk by (rule iteration_breaks)
  have c2: "(\<exists>mem'. run_loop env k mem = Some (Suc k, Inl (e, mem')))
        \<longleftrightarrow> e = OverflowError \<and> amount_overflows mem"
    unfolding exc by (rule iteration_raises)
  have c3: "(\<exists>mem'. iteration env (Suc k) mem = Continue mem'
                \<and> run_loop env k mem = run_loop env (Suc k) mem')
        \<longleftrightarrow> \<not> (\<exists>mem'. run_loop env k mem = Some (Suc k, Inr mem'))
            \<and> \<not> amount_overflows mem"
  proof (cases "iteration env (Suc k) mem")
    case (Continue m)
    with run_loop_continue [OF Continue] iteration_raises [of env "Suc k" mem OverflowError]
    show ?thesis unfolding brk by simp
  next
    case (Break m)
    then show ?thesis unfolding brk by simp
  next
    case (Raised e' m)
    with iteration_raises [of env "Suc k" mem e']
    show ?thesis unfolding brk by auto
  qed
  have c4: "next_action mem = Some ExecuteImmediate \<and> payment_plan mem = Some plan
        \<and> tool_execute_payment env (uuid4 env (Suc k)) (account mem) (immediate_cents plan)
              (PaymentPlan.currency plan) = Inr (False, msg, txn, acct')
        \<and> \<not> float_overflow (immediate_cents plan)
      \<longrightarrow> iteration env (Suc k) mem
            = Continue (mem\<lparr>audit_log := audit_log mem
                                @ audit_lines env (Suc k) mem ExecuteImmediate\<rparr>)
          \<and> next_action (mem\<lparr>audit_log := audit_log mem
                                @ audit_lines env (Suc k) mem ExecuteImmediate\<rparr>)
              = Some ExecuteImmediate
          \<and> run_loop env k mem = None"
  proof (intro impI)
    assume a: "next_action mem = Some ExecuteImmediate \<and> payment_plan mem = Some plan
        \<and> tool_execute_payment env (uuid4 env (Suc k)) (account mem) (immediate_cents plan)
              (PaymentPlan.currency plan) = Inr (False, msg, txn, acct')
        \<and> \<not> float_overflow (immediate_cents plan)"
    then have n: "next_action mem = Some ExecuteImmediate"
      and p: "payment_plan mem = Some plan"
      and f: "tool_execute_payment env (uuid4 env (Suc k)) (account mem) (immediate_cents plan)
              (PaymentPlan.currency plan) = Inr (False, msg, txn, acct')"
      and r: "\<not> float_overflow (immediate_cents plan)"
      by simp_all
    from f have "0 < immediate_cents plan"
      "balance_cents (account mem) < immediate_cents plan"
      by (simp_all add: tool_execute_payment_fails)
    with n p r have "stuck mem" by (simp add: stuck_def)
    then have "run_loop env k mem = None" by (rule stuck_never_returns)
    with iteration_execute_failed [OF n p f r]
    show "iteration env (Suc k) mem
            = Continue (mem\<lparr>audit_log := audit_log mem
                                @ audit_lines env (Suc k) mem ExecuteImmediate\<rparr>)
          \<and> next_action (mem\<lparr>audit_log := audit_log mem
                                @ audit_lines env (Suc k) mem ExecuteImmediate\<rparr>)
              = Some ExecuteImmediate
          \<and> run_loop env k mem = None"
      by simp
  qed
  have c5: "fst (tool_propose_plan t mem)" by simp
  have c6: "tool_schedule_payment env uuid d cents cur \<noteq> Inr (False, msg', sch)"
    by (rule tool_schedule_payment_never_fails)
  from c1 c2 c3 c4 c5 c6 show ?thesis by blast
qed

theorem loop_breaks_exactly_on_witness:
  "next_action unfunded_memory = Some ExecuteImmediate
   \<and> payment_plan unfunded_memory = Some demo_plan
   \<and> tool_execute_payment demo_env (uuid4 demo_env 5) (account unfunded_memory)
        (immediate_cents demo_plan) (PaymentPlan.currency demo_plan)
       = Inr (False, ''Execution failed: insufficient funds.'', '''', account unfunded_memory)
   \<and> \<not> float_overflow (immediate_cents demo_plan)
   \<and> iteration demo_env 5 unfunded_memory
       = Continue (unfunded_memory\<lparr>audit_log := audit_log unfunded_memory
                     @ audit_lines demo_env 5 unfunded_memory ExecuteImmediate\<rparr>)
   \<and> run_loop demo_env 4 unfunded_memory = None
   \<and> next_action done_memory = None
   \<and> (\<exists>mem'. run_loop demo_env 6 done_memory = Some (7, Inr mem'))"
proof -
  have five: "Suc 4 = 5" and seven: "Suc 6 = 7" by simp_all
  have a: "iteration demo_env 5 unfunded_memory
       = Continue (unfunded_memory\<lparr>audit_log := audit_log unfunded_memory
                     @ audit_lines demo_env 5 unfunded_memory ExecuteImmediate\<rparr>)
     \<and> run_loop demo_env 4 unfunded_memory = None"
    using loop_breaks_exactly_on [of demo_env 4 unfunded_memory _ demo_plan
        "''Execution failed: insufficient funds.''" "''''" "account unfunded_memory"]
      next_action_unfunded payment_plan_unfunded tool_execute_payment_unfunded
      demo_plan_renders(1)
    unfolding five by blast
  have b: "\<exists>mem'. run_loop demo_env 6 done_memory = Some (7, Inr mem')"
    using loop_breaks_exactly_on [of demo_env 6 done_memory] next_action_done
    unfolding seven by blast
  show ?thesis
    using a b next_action_unfunded payment_plan_unfunded tool_execute_payment_unfunded
      demo_plan_renders(1) next_action_done
    by blast
qed

text \<open>
  C4 as stated fails: with a plan whose immediate part is \<open>10 ^ 311\<close> and a balance of 0,
  the planner asks for \<^verbatim>\<open>execute_immediate\<close> and \<^verbatim>\<open>tool_execute_payment\<close> returns its
  insufficient-funds failure, but the failure is not logged and the loop does not go
  round again: rendering the amount for the Action line raises \<^verbatim>\<open>OverflowError\<close>, and
  the run ends in that iteration, with the Thought line as its only trace.
\<close>

theorem execute_failure_overflow_counterexample:
  "next_action huge_memory = Some ExecuteImmediate
   \<and> payment_plan huge_memory = Some huge_plan
   \<and> tool_execute_payment demo_env (uuid4 demo_env 5) (account huge_memory)
        (immediate_cents huge_plan) (PaymentPlan.currency huge_plan)
       = Inr (False, ''Execution failed: insufficient funds.'', '''', account huge_memory)
   \<and> run_loop demo_env 4 huge_memory
       = Some (5, Inl (OverflowError,
           huge_memory\<lparr>audit_log := audit_log huge_memory @
             [''2026-11-04T09:00:00 | Thought 5: Deciding to 'execute_immediate'.'']\<rparr>))"
proof -
  have "Suc 4 = 5" by simp
  with run_loop_raised [of demo_env 4 huge_memory] iteration_huge
  have "run_loop demo_env 4 huge_memory
       = Some (5, Inl (OverflowError,
           huge_memory\<lparr>audit_log := audit_log huge_memory @
             [''2026-11-04T09:00:00 | Thought 5: Deciding to 'execute_immediate'.'']\<rparr>))"
    by simp
  with next_action_huge payment_plan_huge tool_execute_payment_huge show ?thesis by blast
qed

subsection \<open>Progress of the loop\<close>

lemma rank_le_6: "rank a \<le> 6"
  by (cases a rule: rank.cases) simp_all

lemma funded_upd [simp]:
  "funded (mem\<lparr>audit_log := l\<rparr>) = funded mem"
  "funded (mem\<lparr>vendor_kyc_ok := k\<rparr>) = funded mem"
  "funded (mem\<lparr>vendor_aml_ok := a\<rparr>) = funded mem"
  "funded (mem\<lparr>scheduled := b\<rparr>) = funded mem"
  by (simp_all add: funded_def split: option.split)

lemma funded_fresh: "funded (fresh_memory iv acct)"
  by (simp add: funded_def fresh_memory_def)

lemma plan_renders_upd [simp]:
  "plan_renders (mem\<lparr>audit_log := l\<rparr>) = plan_renders mem"
  "plan_renders (mem\<lparr>vendor_kyc_ok := k\<rparr>) = plan_renders mem"
  "plan_renders (mem\<lparr>vendor_aml_ok := a\<rparr>) = plan_renders mem"
  "plan_renders (mem\<lparr>scheduled := b\<rparr>) = plan_renders mem"
  "plan_renders (mem\<lparr>account := acct\<rparr>) = plan_renders mem"
  "plan_renders (mem\<lparr>executed_amount_cents := x\<rparr>) = plan_renders mem"
  by (simp_all add: plan_renders_def split: option.split)

lemma plan_renders_fresh: "plan_renders (fresh_memory iv acct) = (\<not> float_overflow (amount iv))"
  by (simp add: plan_renders_def fresh_memory_def)

lemma plan_renders_not_overflows: "plan_renders mem \<Longrightarrow> \<not> amount_overflows mem"
  by (auto simp add: plan_renders_def amount_overflows_cases)

lemma propose_plan_immediate:
  "immediate_cents (snd (snd (tool_propose_plan t mem))) \<le> 0
   \<or> immediate_cents (snd (snd (tool_propose_plan t mem))) \<le> balance_cents (account mem)"
  unfolding tool_propose_plan_def Let_def by (simp add: min_def max_def)

lemma propose_plan_bounds:
  "\<bar>immediate_cents (snd (snd (tool_propose_plan t mem)))\<bar> \<le> \<bar>amount (invoice mem)\<bar>"
  "\<bar>scheduled_cents (snd (snd (tool_propose_plan t mem)))\<bar> \<le> \<bar>amount (invoice mem)\<bar>"
  unfolding tool_propose_plan_def Let_def by (simp_all add: min_def max_def)

lemma next_action_facts:
  "next_action mem = Some RunKyc \<Longrightarrow> validated mem"
  "next_action mem = Some RunAml \<Longrightarrow> validated mem \<and> vendor_kyc_ok mem \<noteq> None"
  "next_action mem = Some ProposePlan \<Longrightarrow>
     validated mem \<and> vendor_kyc_ok mem \<noteq> None \<and> vendor_aml_ok mem \<noteq> None
     \<and> payment_plan mem = None"
  "next_action mem = Some ExecuteImmediate \<Longrightarrow> payment_plan mem = Some plan \<Longrightarrow>
     validated mem \<and> vendor_kyc_ok mem \<noteq> None \<and> vendor_aml_ok mem \<noteq> None
     \<and> executed_amount_cents mem < immediate_cents plan"
  "next_action mem = Some ScheduleRemainder \<Longrightarrow> payment_plan mem = Some plan \<Longrightarrow>
     validated mem \<and> vendor_kyc_ok mem \<noteq> None \<and> vendor_aml_ok mem \<noteq> None
     \<and> \<not> executed_amount_cents mem < immediate_cents plan"
  by (auto simp add: next_action_def split: if_splits option.splits)

lemma rank_bounds:
  "validated mem \<Longrightarrow> 1 \<le> rank (next_action mem)"
  "validated mem \<Longrightarrow> vendor_kyc_ok mem \<noteq> None \<Longrightarrow> 2 \<le> rank (next_action mem)"
  "validated mem \<Longrightarrow> vendor_kyc_ok mem \<noteq> None \<Longrightarrow> vendor_aml_ok mem \<noteq> None
     \<Longrightarrow> 3 \<le> rank (next_action mem)"
  "validated mem \<Longrightarrow> vendor_kyc_ok mem \<noteq> None \<Longrightarrow> vendor_aml_ok mem \<noteq> None
     \<Longrightarrow> payment_plan mem = Some plan \<Longrightarrow> 4 \<le> rank (next_action mem)"
  "validated mem \<Longrightarrow> vendor_kyc_ok mem \<noteq> None \<Longrightarrow> vendor_aml_ok mem \<noteq> None
     \<Longrightarrow> payment_plan mem = Some plan
     \<Longrightarrow> \<not> executed_amount_cents mem < immediate_cents plan
     \<Longrightarrow> 5 \<le> rank (next_action mem)"
  "validated mem \<Longrightarrow> vendor_kyc_ok mem \<noteq> None \<Longrightarrow> vendor_aml_ok mem \<noteq> None
     \<Longrightarrow> payment_plan mem = Some plan
     \<Longrightarrow> \<not> executed_amount_cents mem < immediate_cents plan \<Longrightarrow> scheduled mem
     \<Longrightarrow> 6 \<le> rank (next_action mem)"
  by (auto simp add: next_action_def split: option.splits)

lemma validate_ok_message:
  "fst (tool_validate_invoice t mem) \<Longrightarrow> snd (tool_validate_invoice t mem) = ''Invoice validated.''"
  by (simp add: tool_validate_invoice_def Let_def split: if_splits)

lemma validated_by_lines:
  assumes "fst (tool_validate_invoice (today env step) mem)"
  shows "list_ex (\<lambda>line. sublist ''Invoice validated.'' line)
           (audit_lines env step mem ValidateInvoice)"
proof -
  have "sublist ''Invoice validated.''
          ((now env step 2 @ '' | '' @ ''Observation '' @ show_nat step @ '': '')
             @ ''Invoice validated.'' @ [])"
    by (rule sublist_appendI)
  then show ?thesis
    using validate_ok_message [OF assms]
    by (simp add: audit_lines_def observed_text_def)
qed

lemma progress:
  assumes f: "funded mem" and c: "iteration env step mem = Continue mem'"
  shows "rank (next_action mem) < rank (next_action mem') \<and> funded mem'
         \<and> (plan_renders mem \<longrightarrow> plan_renders mem')"
proof (cases "next_action mem")
  case None
  with c show ?thesis by (simp add: iteration_done)
next
  case (Some a)
  show ?thesis
  proof (cases a)
    case ValidateInvoice
    with Some c have ok: "fst (tool_validate_invoice (today env step) mem)"
      and m: "mem' = mem\<lparr>audit_log := audit_log mem @ audit_lines env step mem ValidateInvoice\<rparr>"
      by (auto simp add: iteration_validate split: if_splits)
    have "validated mem'"
      using validated_by_lines [OF ok] by (simp add: m validated_def)
    then have "1 \<le> rank (next_action mem')" by (rule rank_bounds(1))
    with Some ValidateInvoice f m show ?thesis by simp
  next
    case RunKyc
    with Some c have
      m: "mem' = mem\<lparr>vendor_kyc_ok := Some (fst (tool_run_kyc (vendor_id (invoice mem)))),
                      audit_log := audit_log mem @ audit_lines env step mem RunKyc\<rparr>"
      by (auto simp add: iteration_kyc split: if_splits)
    have "validated mem" using Some RunKyc by (simp add: next_action_facts(1))
    then have "validated mem'" "vendor_kyc_ok mem' \<noteq> None"
      by (simp_all add: m validated_def)
    then have "2 \<le> rank (next_action mem')" by (rule rank_bounds(2))
    with Some RunKyc f m show ?thesis by simp
  next
    case RunAml
    with Some c have
      m: "mem' = mem\<lparr>vendor_aml_ok :=
                        Some (fst (tool_run_aml_screening (vendor_id (invoice mem)))),
                      audit_log := audit_log mem @ audit_lines env step mem RunAml\<rparr>"
      by (auto simp add: iteration_aml split: if_splits)
    have "validated mem \<and> vendor_kyc_ok mem \<noteq> None"
      using Some RunAml by (simp add: next_action_facts(2))
    then have "validated mem'" "vendor_kyc_ok mem' \<noteq> None" "vendor_aml_ok mem' \<noteq> None"
      by (simp_all add: m validated_def)
    then have "3 \<le> rank (next_action mem')" by (rule rank_bounds(3))
    with Some RunAml f m show ?thesis by simp
  next
    case ProposePlan
    let ?plan = "snd (snd (tool_propose_plan (today env step) mem))"
    from ProposePlan Some c have
      m: "mem' = mem\<lparr>payment_plan := Some ?plan,
                      audit_log := audit_log mem @ audit_lines env step mem ProposePlan\<rparr>"
      by (simp add: iteration_propose)
    have n: "validated mem \<and> vendor_kyc_ok mem \<noteq> None \<and> vendor_aml_ok mem \<noteq> None
       \<and> payment_plan mem = None"
      using Some ProposePlan by (simp add: next_action_facts(3))
    then have "validated mem'" "vendor_kyc_ok mem' \<noteq> None" "vendor_aml_ok mem' \<noteq> None"
      "payment_plan mem' = Some ?plan"
      by (simp_all add: m validated_def)
    then have "4 \<le> rank (next_action mem')" by (rule rank_bounds(4))
    moreover have "funded mem'"
      using f propose_plan_immediate [of "today env step" mem]
      by (auto simp add: funded_def m)
    moreover have "plan_renders mem \<longrightarrow> plan_renders mem'"
    proof
      assume "plan_renders mem"
      with n have "\<not> float_overflow (amount (invoice mem))" by (simp add: plan_renders_def)
      with propose_plan_bounds [of "today env step" mem]
      have "\<not> float_overflow (immediate_cents ?plan)" "\<not> float_overflow (scheduled_cents ?plan)"
        using float_overflow_mono by blast+
      then show "plan_renders mem'" by (simp add: plan_renders_def m)
    qed
    ultimately show ?thesis using Some ProposePlan by simp
  next
    case ExecuteImmediate
    with Some have na: "next_action mem = Some ExecuteImmediate" by simp
    then obtain plan where p: "payment_plan mem = Some plan"
      using next_action_plan [of mem] by auto
    have n: "validated mem \<and> vendor_kyc_ok mem \<noteq> None \<and> vendor_aml_ok mem \<noteq> None
       \<and> executed_amount_cents mem < immediate_cents plan"
      using na p by (simp add: next_action_facts(4))
    with f p have b: "0 \<le> executed_amount_cents mem"
      "immediate_cents plan \<le> balance_cents (account mem)"
      by (simp_all add: funded_def)
    with n have pos: "0 < immediate_cents plan" by simp
    have r: "\<not> float_overflow (immediate_cents plan)"
    proof
      assume "float_overflow (immediate_cents plan)"
      from iteration_execute_overflow [OF na p this, of env step] c show False by simp
    qed
    let ?acct = "(account mem)
                   \<lparr>balance_cents := balance_cents (account mem) - immediate_cents plan,
                    spent_today_cents := spent_today_cents (account mem) + immediate_cents plan\<rparr>"
    from iteration_execute [OF na p tool_execute_payment_result(3) [OF pos b(2) r] r] c
    have m: "mem' = mem\<lparr>account := ?acct,
                      executed_amount_cents := immediate_cents plan,
                      audit_log := audit_log mem @ audit_lines env step mem ExecuteImmediate\<rparr>"
      by simp
    have "validated mem'" "vendor_kyc_ok mem' \<noteq> None" "vendor_aml_ok mem' \<noteq> None"
      "payment_plan mem' = Some plan" "\<not> executed_amount_cents mem' < immediate_cents plan"
      using n p by (simp_all add: m validated_def)
    then have "5 \<le> rank (next_action mem')" by (rule rank_bounds(5))
    moreover have "funded mem'"
      using n b p by (simp add: funded_def m)
    moreover have "plan_renders mem \<longrightarrow> plan_renders mem'"
      by (simp add: m)
    ultimately show ?thesis using na by simp
  next
    case ScheduleRemainder
    with Some have na: "next_action mem = Some ScheduleRemainder" by simp
    then obtain plan where p: "payment_plan mem = Some plan"
      using next_action_plan [of mem] by auto
    have n: "validated mem \<and> vendor_kyc_ok mem \<noteq> None \<and> vendor_aml_ok mem \<noteq> None
       \<and> \<not> executed_amount_cents mem < immediate_cents plan"
      using na p by (simp add: next_action_facts(5))
    have r: "\<not> float_overflow (scheduled_cents plan)"
    proof
      assume "float_overflow (scheduled_cents plan)"
      from iteration_schedule_overflow [OF na p this, of env step] c show False by simp
    qed
    from iteration_schedule [OF na p r, of env step] c have
      m: "mem' = mem\<lparr>scheduled := True,
                      audit_log := audit_log mem @ audit_lines env step mem ScheduleRemainder\<rparr>"
      by simp
    have "validated mem'" "vendor_kyc_ok mem' \<noteq> None" "vendor_aml_ok mem' \<noteq> None"
      "payment_plan mem' = Some plan" "\<not> executed_amount_cents mem' < immediate_cents plan"
      "scheduled mem'"
      using n p by (simp_all add: m validated_def)
    then have "6 \<le> rank (next_action mem')" by (rule rank_bounds(6))
    with na f m show ?thesis by simp
  qed
qed

lemma run_loop_terminates:
  "funded mem \<Longrightarrow>
     \<exists>n r. run_loop env k mem = Some (k + n, r) \<and> 1 \<le> n \<and> n + rank (next_action mem) \<le> 7
       \<and> ((\<exists>m. r = Inr m) \<or> (\<exists>m. r = Inl (OverflowError, m)))
       \<and> (plan_renders mem \<longrightarrow> (\<exists>m. r = Inr m))"
proof (induction "6 - rank (next_action mem)" arbitrary: mem k rule: less_induct)
  case less
  show ?case
  proof (cases "iteration env (Suc k) mem")
    case (Continue mem')
    from progress [OF less.prems Continue]
    have r: "rank (next_action mem) < rank (next_action mem')" and f: "funded mem'"
      and pr: "plan_renders mem \<longrightarrow> plan_renders mem'"
      by simp_all
    have "6 - rank (next_action mem') < 6 - rank (next_action mem)"
      using r rank_le_6 [of "next_action mem'"] by arith
    from less.hyps [OF this f, of "Suc k"] obtain n r'
      where "run_loop env (Suc k) mem' = Some (Suc k + n, r')" "1 \<le> n"
        "n + rank (next_action mem') \<le> 7"
        "(\<exists>m. r' = Inr m) \<or> (\<exists>m. r' = Inl (OverflowError, m))"
        "plan_renders mem' \<longrightarrow> (\<exists>m. r' = Inr m)"
      by blast
    with r pr run_loop_continue [OF Continue] show ?thesis
      by (intro exI [of _ "Suc n"] exI [of _ r']) simp
  next
    case (Break mem')
    with run_loop_break [OF Break] rank_le_6 [of "next_action mem"] show ?thesis
      by (intro exI [of _ 1] exI [of _ "Inr mem'"]) simp
  next
    case (Raised e mem')
    with iteration_raises [of env "Suc k" mem e]
    have e: "e = OverflowError" and o: "amount_overflows mem" by auto
    from o have "\<not> plan_renders mem" using plan_renders_not_overflows by blast
    with run_loop_raised [OF Raised] e rank_le_6 [of "next_action mem"] show ?thesis
      by (intro exI [of _ 1] exI [of _ "Inl (OverflowError, mem')"]) simp
  qed
qed

lemma state_after_funded:
  "funded mem0 \<Longrightarrow> state_after env mem0 k = Some mem \<Longrightarrow> funded mem"
proof (induction k arbitrary: mem)
  case 0
  then show ?case by simp
next
  case (Suc k)
  then obtain m where m: "state_after env mem0 k = Some m"
    and i: "iteration env (Suc k) m = Continue mem"
    by (auto split: option.splits outcome.splits)
  from Suc.IH [OF Suc.prems(1) m] progress [OF _ i] show ?case by simp
qed

lemma state_after_run_loop:
  "state_after env mem0 k = Some mem \<Longrightarrow> run_loop env 0 mem0 = run_loop env k mem"
proof (induction k arbitrary: mem)
  case 0
  then show ?case by simp
next
  case (Suc k)
  then obtain m where m: "state_after env mem0 k = Some m"
    and i: "iteration env (Suc k) m = Continue mem"
    by (auto split: option.splits outcome.splits)
  from Suc.IH [OF m] run_loop_continue [OF i] show ?case by simp
qed

subsection \<open>Scenario A, step by step\<close>

lemma show_nat_digits [simp]:
  "show_nat (Suc 0) = ''1''" "show_nat 2 = ''2''" "show_nat 3 = ''3''" "show_nat 4 = ''4''"
  "show_nat 5 = ''5''" "show_nat 6 = ''6''" "show_nat 7 = ''7''"
  by (simp_all add: show_nat.simps digit_def)

lemma validated_line [simp]:
  "sublist ''Invoice validated.'' (ts @ '' | Observation 1: Invoice validated.'')"
  by (simp add: sublist_append sublist_code)

lemma scenario_mem_0: "scenario_mem env iv acct 0 = fresh_memory iv acct"
  by (simp add: scenario_mem_def fresh_memory_def)

lemma scenario_validated:
  "\<not> validated (scenario_mem env iv acct 0)"
  "validated (scenario_mem env iv acct (Suc 0))"
  "validated (scenario_mem env iv acct 2)"
  "validated (scenario_mem env iv acct 3)"
  "validated (scenario_mem env iv acct 4)"
  "validated (scenario_mem env iv acct 5)"
  "validated (scenario_mem env iv acct 6)"
  by (simp_all add: validated_def scenario_mem_def scenario_lines_def)

lemma scenario_next_action:
  "next_action (scenario_mem env iv acct 0) = Some ValidateInvoice"
  "next_action (scenario_mem env iv acct (Suc 0)) = Some RunKyc"
  "next_action (scenario_mem env iv acct 2) = Some RunAml"
  "next_action (scenario_mem env iv acct 3) = Some ProposePlan"
  "next_action (scenario_mem env iv acct 4) = Some ExecuteImmediate"
  "next_action (scenario_mem env iv acct 5) = Some ScheduleRemainder"
  "next_action (scenario_mem env iv acct 6) = None"
  by (simp_all add: next_action_def scenario_validated)
     (auto simp add: scenario_mem_def scenario_plan_def)

lemma scenario_amounts_render: "\<not> float_overflow 18000" "\<not> float_overflow 7000"
  by (simp_all add: float_overflow_small)

lemma scenario_tools:
  assumes "scenario_A env iv acct"
  shows "tool_validate_invoice (today env 1) (scenario_mem env iv acct 0)
           = (True, ''Invoice validated.'')"
    and "tool_run_kyc (vendor_id iv) = (True, ''KYC passed.'')"
    and "tool_run_aml_screening (vendor_id iv) = (True, ''AML screening passed.'')"
    and "tool_propose_plan (today env 4) (scenario_mem env iv acct 3)
           = (True, ''Proposed split: partial now, remainder tomorrow.'', scenario_plan env)"
    and "tool_execute_payment env (uuid4 env 5) acct 18000 ''USD''
           = Inr (True, ''Executed '' @ fmt_cents env 18000 @ '' USD.'', uuid4 env 5,
                  acct\<lparr>balance_cents := 0, spent_today_cents := 18000\<rparr>)"
    and "tool_schedule_payment env (uuid4 env 6) (Some (today env 4 + 1)) 7000 ''USD''
           = Inr (True, ''Scheduled '' @ fmt_cents env 7000 @ '' USD for ''
                    @ fmt_date env (Some (today env 4 + 1)) @ ''.'', ''SCH-'' @ uuid4 env 6)"
  using assms
  by (simp_all add: scenario_A_def tool_validate_invoice_def tool_run_kyc_def
        tool_run_aml_screening_def tool_propose_plan_def tool_execute_payment_def
        tool_schedule_payment_def scenario_mem_def scenario_plan_def Let_def
        render_cents_def scenario_amounts_render)

lemmas scenario_unfold =
  scenario_mem_def scenario_lines_def scenario_plan_def audit_lines_def call_text_def
  observed_text_def thought_def Let_def

lemma scenario_step_1:
  assumes "scenario_A env iv acct"
  shows "iteration env 1 (scenario_mem env iv acct 0) = Continue (scenario_mem env iv acct 1)"
  using iteration_validate [where env = env and step = 1, OF scenario_next_action(1) [of env iv acct]]
    scenario_tools(1) [OF assms]
  by (simp add: scenario_unfold)

lemma scenario_step_2:
  assumes "scenario_A env iv acct"
  shows "iteration env 2 (scenario_mem env iv acct 1) = Continue (scenario_mem env iv acct 2)"
  using iteration_kyc [where env = env and step = 2, OF scenario_next_action(2) [of env iv acct]]
    scenario_tools(2) [OF assms]
  by (simp add: scenario_unfold)

lemma scenario_step_3:
  assumes "scenario_A env iv acct"
  shows "iteration env 3 (scenario_mem env iv acct 2) = Continue (scenario_mem env iv acct 3)"
  using iteration_aml [where env = env and step = 3, OF scenario_next_action(3) [of env iv acct]]
    scenario_tools(3) [OF assms]
  by (simp add: scenario_unfold)

lemma scenario_step_4:
  assumes "scenario_A env iv acct"
  shows "iteration env 4 (scenario_mem env iv acct 3) = Continue (scenario_mem env iv acct 4)"
  using iteration_propose [where env = env and step = 4, OF scenario_next_action(4) [of env iv acct]]
    scenario_tools(4) [OF assms]
  by (simp add: scenario_unfold)

lemma scenario_step_5:
  assumes "scenario_A env iv acct"
  shows "iteration env 5 (scenario_mem env iv acct 4) = Continue (scenario_mem env iv acct 5)"
proof -
  have p: "payment_plan (scenario_mem env iv acct 4) = Some (scenario_plan env)"
    by (simp add: scenario_mem_def)
  have r: "\<not> float_overflow (immediate_cents (scenario_plan env))"
    by (simp add: scenario_plan_def scenario_amounts_render)
  have t: "tool_execute_payment env (uuid4 env 5) (account (scenario_mem env iv acct 4))
             (immediate_cents (scenario_plan env)) (PaymentPlan.currency (scenario_plan env))
           = Inr (True, ''Executed '' @ fmt_cents env 18000 @ '' USD.'', uuid4 env 5,
                  acct\<lparr>balance_cents := 0, spent_today_cents := 18000\<rparr>)"
    using scenario_tools(5) [OF assms] by (simp add: scenario_mem_def scenario_plan_def)
  show ?thesis
    using iteration_execute [OF scenario_next_action(5) [of env iv acct] p t r]
      scenario_tools(5) [OF assms]
    by (simp add: scenario_unfold)
qed

lemma scenario_step_6:
  assumes "scenario_A env iv acct"
  shows "iteration env 6 (scenario_mem env iv acct 5) = Continue (scenario_mem env iv acct 6)"
proof -
  have p: "payment_plan (scenario_mem env iv acct 5) = Some (scenario_plan env)"
    by (simp add: scenario_mem_def)
  have r: "\<not> float_overflow (scheduled_cents (scenario_plan env))"
    by (simp add: scenario_plan_def scenario_amounts_render)
  show ?thesis
    using iteration_schedule [where env = env and step = 6,
        OF scenario_next_action(6) [of env iv acct] p r]
      scenario_tools(6) [OF assms]
    by (simp add: scenario_unfold)
qed

lemma scenario_step_7:
  "iteration env 7 (scenario_mem env iv acct 6)
     = Break ((scenario_mem env iv acct 6)\<lparr>audit_log := scenario_lines env iv\<rparr>)"
  using iteration_done [where env = env and step = 7, OF scenario_next_action(7) [of env iv acct]]
  by (simp add: scenario_unfold)

lemma scenario_A_demo: "scenario_A demo_env demo_invoice demo_account"
  by (simp add: scenario_A_def demo_env_def demo_invoice_def demo_account_def suffix_to_prefix)

lemma state_after_step:
  "state_after env mem0 k = Some m \<Longrightarrow> iteration env (Suc k) m = Continue m'
     \<Longrightarrow> state_after env mem0 (Suc k) = Some m'"
  by simp

lemma scenario_state_4:
  assumes "scenario_A env iv acct"
  shows "state_after env (fresh_memory iv acct) 4 = Some (scenario_mem env iv acct 4)"
proof -
  let ?m0 = "scenario_mem env iv acct 0"
  have s0: "state_after env ?m0 0 = Some (scenario_mem env iv acct 0)" by simp
  have s1: "state_after env ?m0 1 = Some (scenario_mem env iv acct 1)"
    using state_after_step [OF s0] scenario_step_1 [OF assms] by simp
  have s2: "state_after env ?m0 2 = Some (scenario_mem env iv acct 2)"
    using state_after_step [OF s1] scenario_step_2 [OF assms] by (simp add: numeral_2_eq_2)
  have s3: "state_after env ?m0 3 = Some (scenario_mem env iv acct 3)"
    using state_after_step [OF s2] scenario_step_3 [OF assms] by (simp add: eval_nat_numeral)
  have s4: "state_after env ?m0 4 = Some (scenario_mem env iv acct 4)"
    using state_after_step [OF s3] scenario_step_4 [OF assms] by (simp add: eval_nat_numeral)
  then show ?thesis by (simp add: scenario_mem_0)
qed

subsection \<open>Termination\<close>

text \<open>
  C9. Started on a fresh memory, built from any invoice and any account,
  \<^verbatim>\<open>run_episode\<close> leaves its loop after at most seven iterations: by a \<^verbatim>\<open>break\<close>, or by
  the \<^verbatim>\<open>OverflowError\<close> of rendering an amount beyond the range of a float, and always by a
  \<^verbatim>\<open>break\<close> when the invoice amount is within that range. Whenever such a run dispatches
  \<^verbatim>\<open>execute_immediate\<close>, the plan's immediate part is at most the balance, so
  \<^verbatim>\<open>tool_execute_payment\<close> does not return its insufficient-funds failure: that branch is
  not reached.
\<close>

theorem fresh_run_terminates:
  "(\<exists>n r. run_episode env (fresh_memory iv acct) = Some (n, r) \<and> n \<le> 7
       \<and> ((\<exists>m. r = Inr m) \<or> (\<exists>m. r = Inl (OverflowError, m)))
       \<and> (\<not> float_overflow (amount iv) \<longrightarrow> (\<exists>m. r = Inr m)))
   \<and> (state_after env (fresh_memory iv acct) k = Some mem
        \<and> next_action mem = Some ExecuteImmediate \<and> payment_plan mem = Some plan
      \<longrightarrow> run_episode env (fresh_memory iv acct) = run_loop env k mem
          \<and> immediate_cents plan \<le> balance_cents (account mem)
          \<and> tool_execute_payment env (uuid4 env (Suc k)) (account mem)
                (immediate_cents plan) (PaymentPlan.currency plan)
              \<noteq> Inr (False, msg, txn, acct'))"
proof (intro conjI impI)
  from run_loop_terminates [OF funded_fresh, of env 0 iv acct]
  show "\<exists>n r. run_episode env (fresh_memory iv acct) = Some (n, r) \<and> n \<le> 7
       \<and> ((\<exists>m. r = Inr m) \<or> (\<exists>m. r = Inl (OverflowError, m)))
       \<and> (\<not> float_overflow (amount iv) \<longrightarrow> (\<exists>m. r = Inr m))"
    by (auto simp add: run_episode_def plan_renders_fresh)
next
  assume a: "state_after env (fresh_memory iv acct) k = Some mem
        \<and> next_action mem = Some ExecuteImmediate \<and> payment_plan mem = Some plan"
  then show "run_episode env (fresh_memory iv acct) = run_loop env k mem"
    by (simp add: run_episode_def state_after_run_loop)
  from a have f: "funded mem" using state_after_funded [OF funded_fresh] by blast
  from a have "executed_amount_cents mem < immediate_cents plan"
    by (simp add: next_action_facts(4))
  with f a show b: "immediate_cents plan \<le> balance_cents (account mem)"
    by (simp add: funded_def)
  then show "tool_execute_payment env (uuid4 env (Suc k)) (account mem)
                (immediate_cents plan) (PaymentPlan.currency plan)
              \<noteq> Inr (False, msg, txn, acct')"
    by (simp add: tool_execute_payment_fails)
qed

theorem fresh_run_terminates_witness:
  "state_after demo_env (fresh_memory demo_invoice demo_account) 4
     = Some (scenario_mem demo_env demo_invoice demo_account 4)
   \<and> next_action (scenario_mem demo_env demo_invoice demo_account 4) = Some ExecuteImmediate
   \<and> payment_plan (scenario_mem demo_env demo_invoice demo_account 4)
       = Some (scenario_plan demo_env)
   \<and> immediate_cents (scenario_plan demo_env)
       \<le> balance_cents (account (scenario_mem demo_env demo_invoice demo_account 4))
   \<and> \<not> float_overflow (amount demo_invoice)
   \<and> (\<exists>n m. run_episode demo_env (fresh_memory demo_invoice demo_account) = Some (n, Inr m)
          \<and> n \<le> 7)"
proof -
  have p: "payment_plan (scenario_mem demo_env demo_invoice demo_account 4)
       = Some (scenario_plan demo_env)"
    by (simp add: scenario_mem_def)
  have r: "\<not> float_overflow (amount demo_invoice)"
    by (simp add: demo_invoice_def float_overflow_small)
  have b: "immediate_cents (scenario_plan demo_env)
       \<le> balance_cents (account (scenario_mem demo_env demo_invoice demo_account 4))"
    using fresh_run_terminates [of demo_env demo_invoice demo_account 4
        "scenario_mem demo_env demo_invoice demo_account 4" "scenario_plan demo_env"]
      scenario_state_4 [OF scenario_A_demo] scenario_next_action(5) p
    by blast
  have t: "\<exists>n m. run_episode demo_env (fresh_memory demo_invoice demo_account) = Some (n, Inr m)
          \<and> n \<le> 7"
    using fresh_run_terminates [of demo_env demo_invoice demo_account] r by blast
  show ?thesis
    using scenario_state_4 [OF scenario_A_demo] scenario_next_action(5) p b r t by blast
qed

subsection \<open>The run of scenario A\<close>

text \<open>
  C5. Scenario A: an invoice of 25000 in USD, due five days after today, from a vendor
  who passes KYC and AML, and an account with balance 18000, daily limit 50000 and
  nothing spent today. The run makes seven iterations: validate_invoice, run_kyc,
  run_aml, propose_plan (a split: 18000 now, 7000 scheduled for the day after the
  proposal), execute_immediate (18000), schedule_remainder (7000), done. It leaves the
  account with balance 0 and 18000 spent today.
\<close>

theorem scenario_A_run:
  assumes "amount iv = 25000" and "Invoice.currency iv = ''USD''"
    and "due_date iv = today env 1 + 5"
    and "balance_cents acct = 18000" and "daily_limit_cents acct = 50000"
    and "spent_today_cents acct = 0"
    and "\<not> suffix ''X'' (vendor_id iv)" and "vendor_id iv \<notin> {''OFAC123'', ''AML999''}"
  shows "run_episode env (fresh_memory iv acct)
    = Some (7, Inr
       \<lparr>invoice = iv,
        account = acct\<lparr>balance_cents := 0, spent_today_cents := 18000\<rparr>,
        vendor_kyc_ok = Some True,
        vendor_aml_ok = Some True,
        payment_plan =
          Some \<lparr>total_cents = 25000, currency = ''USD'', immediate_cents = 18000,
                scheduled_cents = 7000, scheduled_date = Some (today env 4 + 1)\<rparr>,
        executed_amount_cents = 18000,
        scheduled = True,
        errors = [],
        audit_log =
          [now env 1 0 @ '' | Thought 1: Deciding to 'validate_invoice'.'',
           now env 1 1 @ '' | Action 1: validate_invoice()'',
           now env 1 2 @ '' | Observation 1: Invoice validated.'',
           now env 2 0 @ '' | Thought 2: Deciding to 'run_kyc'.'',
           now env 2 1 @ '' | Action 2: run_kyc('' @ vendor_id iv @ '')'',
           now env 2 2 @ '' | Observation 2: KYC passed.'',
           now env 3 0 @ '' | Thought 3: Deciding to 'run_aml'.'',
           now env 3 1 @ '' | Action 3: run_aml('' @ vendor_id iv @ '')'',
           now env 3 2 @ '' | Observation 3: AML screening passed.'',
           now env 4 0 @ '' | Thought 4: Deciding to 'propose_plan'.'',
           now env 4 1 @ '' | Action 4: propose_plan()'',
           now env 4 2 @ '' | Observation 4: Proposed split: partial now, remainder tomorrow.'',
           now env 5 0 @ '' | Thought 5: Deciding to 'execute_immediate'.'',
           now env 5 1 @ '' | Action 5: execute_payment('' @ fmt_cents env 18000 @ '' USD)'',
           now env 5 2 @ '' | Observation 5: Executed '' @ fmt_cents env 18000
             @ '' USD. (txn='' @ uuid4 env 5 @ '')'',
           now env 6 0 @ '' | Thought 6: Deciding to 'schedule_remainder'.'',
           now env 6 1 @ '' | Action 6: schedule_payment('' @ fmt_cents env 7000 @ '' USD on ''
             @ fmt_date env (Some (today env 4 + 1)) @ '')'',
           now env 6 2 @ '' | Observation 6: Scheduled '' @ fmt_cents env 7000 @ '' USD for ''
             @ fmt_date env (Some (today env 4 + 1)) @ ''. (id=SCH-'' @ uuid4 env 6 @ '')'',
           now env 7 0 @ '' | Thought 7: Done.'']\<rparr>)"
proof -
  have sc: "scenario_A env iv acct"
    using assms by (simp add: scenario_A_def)
  have "run_loop env 0 (scenario_mem env iv acct 0) = run_loop env 1 (scenario_mem env iv acct 1)"
    using run_loop_continue [of env 0] scenario_step_1 [OF sc] by simp
  also have "\<dots> = run_loop env 2 (scenario_mem env iv acct 2)"
    using run_loop_continue [of env 1] scenario_step_2 [OF sc] by (simp add: numeral_2_eq_2)
  also have "\<dots> = run_loop env 3 (scenario_mem env iv acct 3)"
    using run_loop_continue [of env 2] scenario_step_3 [OF sc] by (simp add: eval_nat_numeral)
  also have "\<dots> = run_loop env 4 (scenario_mem env iv acct 4)"
    using run_loop_continue [of env 3] scenario_step_4 [OF sc] by (simp add: eval_nat_numeral)
  also have "\<dots> = run_loop env 5 (scenario_mem env iv acct 5)"
    using run_loop_continue [of env 4] scenario_step_5 [OF sc] by (simp add: eval_nat_numeral)
  also have "\<dots> = run_loop env 6 (scenario_mem env iv acct 6)"
    using run_loop_continue [of env 5] scenario_step_6 [OF sc] by (simp add: eval_nat_numeral)
  also have "\<dots> = Some (7, Inr ((scenario_mem env iv acct 6)
                                   \<lparr>audit_log := scenario_lines env iv\<rparr>))"
    using run_loop_break [of env 6] scenario_step_7 [of env iv acct]
    by (simp add: eval_nat_numeral)
  finally have "run_episode env (fresh_memory iv acct)
      = Some (7, Inr ((scenario_mem env iv acct 6)\<lparr>audit_log := scenario_lines env iv\<rparr>))"
    by (simp add: run_episode_def scenario_mem_0)
  then show ?thesis
    by (simp add: scenario_mem_def scenario_lines_def scenario_plan_def)
qed

theorem scenario_A_run_witness:
  "amount demo_invoice = 25000 \<and> Invoice.currency demo_invoice = ''USD''
   \<and> due_date demo_invoice = today demo_env 1 + 5
   \<and> balance_cents demo_account = 18000 \<and> daily_limit_cents demo_account = 50000
   \<and> spent_today_cents demo_account = 0
   \<and> \<not> suffix ''X'' (vendor_id demo_invoice)
   \<and> vendor_id demo_invoice \<notin> {''OFAC123'', ''AML999''}
   \<and> (\<exists>r. run_episode demo_env (fresh_memory demo_invoice demo_account) = Some (7, Inr r)
         \<and> payment_plan r = Some demo_plan
         \<and> balance_cents (account r) = 0 \<and> spent_today_cents (account r) = 18000
         \<and> executed_amount_cents r = 18000 \<and> scheduled r \<and> length (audit_log r) = 19)"
proof -
  have h: "amount demo_invoice = 25000" "Invoice.currency demo_invoice = ''USD''"
    "due_date demo_invoice = today demo_env 1 + 5"
    "balance_cents demo_account = 18000" "daily_limit_cents demo_account = 50000"
    "spent_today_cents demo_account = 0"
    "\<not> suffix ''X'' (vendor_id demo_invoice)"
    "vendor_id demo_invoice \<notin> {''OFAC123'', ''AML999''}"
    by (simp_all add: demo_env_def demo_invoice_def demo_account_def suffix_to_prefix)
  have d: "today demo_env 4 + 1 = 739925" by (simp add: demo_env_def)
  show ?thesis
    using scenario_A_run [OF h] h d by (simp add: demo_plan_def)
qed

end
